theory Spec2Isabelle
  imports Complex_Main "HOL-Library.Char_ord" "HOL-Library.List_Lexorder"
begin

unbundle bit_operations_syntax

section \<open>Errors, configuration and physical constants\<close>

text \<open>
  The program is \<^verbatim>\<open>src/simulasi.py\<close>. Python floats are modelled as real numbers, so the
  arithmetic below is exact: rounding, overflow and NaN are outside the model. The element
  type of a tensor is kept where an exception depends on it. Every exception the code can
  raise on the paths modelled here is a value of \<open>error\<close>.
\<close>

datatype error =
  ValueError | ZeroDivisionError | IndexError | RuntimeError | OverflowError | TypeError
  | KeyError

record config =
  resolution :: nat
  wl_range :: "real \<times> real"
  sigma :: real
  target_max_intensity :: real
  convolution_sigma :: real
  num_samples :: nat
  temperature_range :: "real list"
  electron_density_range :: "real list"

text \<open>\<^verbatim>\<open>np.linspace(lo, hi, n)\<close>: \<open>n\<close> evenly spaced points, the only point \<open>lo\<close> when \<open>n = 1\<close>.\<close>

definition linspace :: "real \<Rightarrow> real \<Rightarrow> nat \<Rightarrow> real list" where
  "linspace lo hi n = map (\<lambda>i. lo + real i * ((hi - lo) / real (n - 1))) [0..<n]"

definition SIMULATION_CONFIG :: config where
  "SIMULATION_CONFIG = \<lparr>
     resolution = 4096,
     wl_range = (200, 900),
     sigma = 1 / 10,
     target_max_intensity = 8 / 10,
     convolution_sigma = 1 / 10,
     num_samples = 500,
     temperature_range = [6000, 8000, 10000, 12000, 14000, 15000],
     electron_density_range = map (\<lambda>e. 10 powr e) (linspace 15 17 10) \<rparr>"

definition k_B :: real where "k_B = 8617333262145 / 10 ^ 17"
definition m_e :: real where "m_e = 91093837 / 10 ^ 38"
definition h_planck :: real where "h_planck = 4135667696 / 10 ^ 24"

definition BASE_ELEMENTS :: "string list" where
  "BASE_ELEMENTS = [''Si'', ''Al'', ''Fe'', ''Ca'', ''O'', ''Na'', ''N'', ''Ni'', ''Cr'', ''Cl'']"

text \<open>The decimal rendering of a number inside an f-string.\<close>

fun show_nat :: "nat \<Rightarrow> string" where
  "show_nat n =
     (if n < 10 then [char_of (48 + n)] else show_nat (n div 10) @ [char_of (48 + n mod 10)])"

declare show_nat.simps [simp del]

definition REQUIRED_ELEMENTS :: "string list" where
  "REQUIRED_ELEMENTS =
     concat (map (\<lambda>elem. map (\<lambda>ion. elem @ ''_'' @ show_nat ion) [1, 2]) BASE_ELEMENTS)"

section \<open>SpectrumSimulator\<close>

text \<open>
  A cell of a transition row: a number, Python's \<^verbatim>\<open>None\<close>, or a value on which
  \<^verbatim>\<open>float()\<close> raises \<^verbatim>\<open>ValueError\<close>. A row is the list the fetcher returns
  (\<^verbatim>\<open>wl, Aki, Ek, Ei, gi, gk, Acc\<close>); unpacking a row that has not seven cells raises
  \<^verbatim>\<open>ValueError\<close>, which the loops of \<^verbatim>\<open>simulate\<close> catch.
\<close>

datatype cell = Num real | NoneV | Junk

fun to_float :: "cell \<Rightarrow> real option" where
  "to_float (Num x) = Some x"
| "to_float NoneV = None"
| "to_float Junk = None"

record simulator =
  nist_data :: "cell list list"
  element :: string
  ion :: nat
  temperatures :: "real list"
  ionization_energy :: real
  sim_config :: config

definition wavelengths :: "simulator \<Rightarrow> real list" where
  "wavelengths sim =
     linspace (fst (wl_range (sim_config sim))) (snd (wl_range (sim_config sim)))
       (resolution (sim_config sim))"

definition element_label :: "simulator \<Rightarrow> string" where
  "element_label sim = element sim @ ''_'' @ show_nat (ion sim)"

text \<open>
  \<^verbatim>\<open>_partition_function\<close>: the sum runs over the zipped degeneracies and energies whose
  energy is not \<^verbatim>\<open>None\<close>; \<^verbatim>\<open>or 1.0\<close> replaces a sum equal to zero. The quotient
  \<^verbatim>\<open>-E / (k_B * temperature)\<close> of Python floats raises \<^verbatim>\<open>ZeroDivisionError\<close> when the
  temperature is zero and a term is evaluated.
\<close>

definition boltzmann_terms :: "real option list \<Rightarrow> real list \<Rightarrow> real \<Rightarrow> real list" where
  "boltzmann_terms energy_levels degeneracies temperature =
     concat (map (\<lambda>(g, E). case E of None \<Rightarrow> [] | Some e \<Rightarrow> [g * exp (- e / (k_B * temperature))])
                 (zip degeneracies energy_levels))"

definition partition_function :: "real option list \<Rightarrow> real list \<Rightarrow> real \<Rightarrow> error + real" where
  "partition_function energy_levels degeneracies temperature =
     (if temperature = 0 \<and> (\<exists>E \<in> set (map snd (zip degeneracies energy_levels)). E \<noteq> None)
      then Inl ZeroDivisionError
      else let s = sum_list (boltzmann_terms energy_levels degeneracies temperature)
           in Inr (if s = 0 then 1 else s))"

definition calculate_intensity :: "real \<Rightarrow> real \<Rightarrow> real \<Rightarrow> real \<Rightarrow> real \<Rightarrow> error + real" where
  "calculate_intensity temperature energy degeneracy einstein_coeff Z =
     (if temperature = 0 then Inl ZeroDivisionError
      else Inr ((degeneracy * einstein_coeff * exp (- energy / (k_B * temperature))) / Z))"

text \<open>
  \<^verbatim>\<open>_gaussian_profile\<close>: the Gaussian of width \<open>sigma\<close> around \<open>center\<close>, evaluated at every
  point of the grid. The cache only stores the arrays and does not change them.
\<close>

definition gaussian_profile :: "simulator \<Rightarrow> real \<Rightarrow> real list" where
  "gaussian_profile sim center =
     map (\<lambda>x. exp (- (1 / 2) * ((x - center) / sigma (sim_config sim)) ^ 2)
               / (sigma (sim_config sim) * sqrt (2 * pi)))
         (wavelengths sim)"

text \<open>\<^verbatim>\<open>np.searchsorted\<close> on the ascending grid: the first index whose point is not below \<open>x\<close>.\<close>

definition searchsorted :: "real list \<Rightarrow> real \<Rightarrow> nat" where
  "searchsorted ws x = length (takeWhile (\<lambda>w. w < x) ws)"

text \<open>\<^verbatim>\<open>xs[start:end] += ys[:end - start]\<close> for \<open>end \<le> length xs\<close>.\<close>

definition add_window :: "real list \<Rightarrow> nat \<Rightarrow> nat \<Rightarrow> real list \<Rightarrow> real list" where
  "add_window xs start_idx end_idx ys =
     map (\<lambda>i. if start_idx \<le> i \<and> i < end_idx then xs ! i + ys ! (i - start_idx) else xs ! i)
         [0..<length xs]"

text \<open>The energy levels: a dictionary from energy to degeneracy, in insertion order.\<close>

definition level_step :: "(real \<times> real) list \<Rightarrow> cell list \<Rightarrow> (real \<times> real) list" where
  "level_step levels data =
     (case data of
        [wl, Aki, Ek, Ei, gi, gk, acc] \<Rightarrow>
          if list_all (\<lambda>v. v \<noteq> NoneV) [wl, Aki, Ek, Ei, gi, gk] then
            (case to_float Ek of None \<Rightarrow> levels | Some ek \<Rightarrow>
             case to_float Ei of None \<Rightarrow> levels | Some ei \<Rightarrow>
               if ei \<in> fst ` set levels then
                 (if ek \<in> fst ` set levels then levels
                  else case to_float gk of None \<Rightarrow> levels | Some g \<Rightarrow> levels @ [(ek, g)])
               else
                 (case to_float gi of None \<Rightarrow> levels | Some g1 \<Rightarrow>
                    let levels1 = levels @ [(ei, g1)] in
                    if ek \<in> fst ` set levels1 then levels1
                    else case to_float gk of None \<Rightarrow> levels1 | Some g \<Rightarrow> levels1 @ [(ek, g)]))
          else levels
      | _ \<Rightarrow> levels)"

definition build_levels :: "cell list list \<Rightarrow> (real \<times> real) list" where
  "build_levels rows = foldl level_step [] rows"

record line_record =
  lr_wavelength :: real
  lr_intensity :: real
  lr_element_label :: string
  lr_index :: nat

record temp_state =
  intensities :: "real list"
  element_contributions :: "real list"
  peak_idx :: "nat list"
  peak_label :: "nat list"
  temp_intensity_data :: "line_record list"

definition class_index :: "string \<Rightarrow> nat" where
  "class_index lbl = length (takeWhile (\<lambda>e. e \<noteq> lbl) REQUIRED_ELEMENTS)"

text \<open>
  One pass of the inner loop of \<^verbatim>\<open>simulate\<close> for a row. A row that does not unpack, has a
  \<^verbatim>\<open>None\<close> among its six fields, or whose \<^verbatim>\<open>wl\<close>, \<^verbatim>\<open>Aki\<close>, \<^verbatim>\<open>Ek\<close> or \<^verbatim>\<open>gk\<close>
  does not convert, is skipped. \<^verbatim>\<open>ZeroDivisionError\<close> is not caught by the loop.
\<close>

definition line_step :: "simulator \<Rightarrow> real \<Rightarrow> real \<Rightarrow> real \<Rightarrow> temp_state \<Rightarrow> cell list \<Rightarrow> error + temp_state" where
  "line_step sim atom_percentage temp Z st data =
     (case data of
        [wl, Aki, Ek, Ei, gi, gk, acc] \<Rightarrow>
          if list_all (\<lambda>v. v \<noteq> NoneV) [wl, Aki, Ek, Ei, gi, gk] then
            (case (to_float wl, to_float Aki, to_float Ek, to_float gk) of
               (Some w, Some a, Some ek, Some g) \<Rightarrow>
                 (case calculate_intensity temp ek g a Z of
                    Inl e \<Rightarrow> Inl e
                  | Inr intensity \<Rightarrow>
                      let idx = searchsorted (wavelengths sim) w;
                          res = resolution (sim_config sim)
                      in if idx < res then
                           let gaussian_contribution =
                                 map (\<lambda>p. intensity * atom_percentage * p) (gaussian_profile sim w);
                               start_idx = idx - length gaussian_contribution div 2;
                               end_idx = min res (start_idx + length gaussian_contribution);
                               st1 = (if start_idx < end_idx then
                                        st\<lparr> intensities :=
                                              add_window (intensities st) start_idx end_idx gaussian_contribution,
                                            element_contributions :=
                                              add_window (element_contributions st) start_idx end_idx
                                                gaussian_contribution \<rparr>
                                      else st)
                           in Inr (st1\<lparr> temp_intensity_data := temp_intensity_data st1 @
                                          [\<lparr> lr_wavelength = w,
                                             lr_intensity = intensity * atom_percentage,
                                             lr_element_label = element_label sim,
                                             lr_index = idx \<rparr>],
                                        peak_idx := peak_idx st1 @ [idx],
                                        peak_label := peak_label st1 @ [class_index (element_label sim)] \<rparr>)
                         else Inr st)
             | _ \<Rightarrow> Inr st)
          else Inr st
      | _ \<Rightarrow> Inr st)"

fun line_loop :: "simulator \<Rightarrow> real \<Rightarrow> real \<Rightarrow> real \<Rightarrow> temp_state \<Rightarrow> cell list list \<Rightarrow> error + temp_state" where
  "line_loop sim atom_percentage temp Z st [] = Inr st"
| "line_loop sim atom_percentage temp Z st (data # rest) =
     (case line_step sim atom_percentage temp Z st data of
        Inl e \<Rightarrow> Inl e
      | Inr st' \<Rightarrow> line_loop sim atom_percentage temp Z st' rest)"

definition simulate_temp :: "simulator \<Rightarrow> real \<Rightarrow> (real \<times> real) list \<Rightarrow> real \<Rightarrow> error + temp_state" where
  "simulate_temp sim atom_percentage levels temp =
     (case partition_function (map (Some \<circ> fst) levels) (map snd levels) temp of
        Inl e \<Rightarrow> Inl e
      | Inr Z \<Rightarrow>
          line_loop sim atom_percentage temp Z
            \<lparr> intensities = replicate (resolution (sim_config sim)) 0,
              element_contributions = replicate (resolution (sim_config sim)) 0,
              peak_idx = [], peak_label = [], temp_intensity_data = [] \<rparr>
            (nist_data sim))"

record sim_result =
  res_wavelengths :: "real list"
  res_spectra :: "real list list"
  res_peak_indices :: "nat list list"
  res_peak_labels :: "nat list list"
  res_temperatures :: "real list"
  res_intensity_data :: "line_record list list"
  res_contributions :: "real list list"

definition empty_result :: "simulator \<Rightarrow> sim_result" where
  "empty_result sim =
     \<lparr> res_wavelengths = wavelengths sim, res_spectra = [], res_peak_indices = [],
       res_peak_labels = [], res_temperatures = [], res_intensity_data = [],
       res_contributions = [] \<rparr>"

fun temp_loop :: "simulator \<Rightarrow> real \<Rightarrow> (real \<times> real) list \<Rightarrow> sim_result \<Rightarrow> real list \<Rightarrow> error + sim_result" where
  "temp_loop sim atom_percentage levels r [] = Inr r"
| "temp_loop sim atom_percentage levels r (temp # rest) =
     (case simulate_temp sim atom_percentage levels temp of
        Inl e \<Rightarrow> Inl e
      | Inr st \<Rightarrow>
          temp_loop sim atom_percentage levels
            (r\<lparr> res_spectra := res_spectra r @ [intensities st],
                res_peak_indices := res_peak_indices r @ [peak_idx st],
                res_peak_labels := res_peak_labels r @ [peak_label st],
                res_temperatures := res_temperatures r @ [temp],
                res_intensity_data := res_intensity_data r @ [temp_intensity_data st],
                res_contributions := res_contributions r @ [element_contributions st] \<rparr>)
            rest)"

definition simulate :: "simulator \<Rightarrow> real \<Rightarrow> error + sim_result" where
  "simulate sim atom_percentage =
     (if nist_data sim = [] then Inr (empty_result sim)
      else let levels = build_levels (nist_data sim)
           in if levels = [] then Inr (empty_result sim)
              else temp_loop sim atom_percentage levels (empty_result sim) (temperatures sim))"

section \<open>MixedSpectrumSimulator\<close>

text \<open>
  Dictionaries whose order matters (Python keeps insertion order) are association lists
  with distinct keys: assignment replaces the value of a present key in place and appends
  a new key at the end.
\<close>

fun dict_set :: "('k \<times> 'v) list \<Rightarrow> 'k \<Rightarrow> 'v \<Rightarrow> ('k \<times> 'v) list" where
  "dict_set [] k v = [(k, v)]"
| "dict_set ((k', v') # d) k v = (if k' = k then (k, v) # d else (k', v') # dict_set d k v)"

definition dict_get :: "('k \<times> 'v) list \<Rightarrow> 'k \<Rightarrow> 'v \<Rightarrow> 'v" where
  "dict_get d k dflt = (case map_of d k of None \<Rightarrow> dflt | Some v \<Rightarrow> v)"

record mixed_simulator =
  simulators :: "simulator list"
  mix_config :: config
  delta_E_max :: "(string \<times> real) list"
  current_T :: real
  current_n_e :: real

definition mix_wavelengths :: "mixed_simulator \<Rightarrow> real list" where
  "mix_wavelengths ms =
     linspace (fst (wl_range (mix_config ms))) (snd (wl_range (mix_config ms)))
       (resolution (mix_config ms))"

definition intensity_threshold :: real where
  "intensity_threshold = 1 / 100"

definition max_abs :: "real list \<Rightarrow> real" where
  "max_abs xs = Max (abs ` set xs)"

text \<open>
  \<^verbatim>\<open>_normalize_intensity\<close>. \<^verbatim>\<open>torch.max\<close> of an empty tensor raises
  \<^verbatim>\<open>RuntimeError\<close>. The quotient and the product are not among the operations that
  \<^verbatim>\<open>autocast\<close> casts, so the result stays a float32 tensor and \<^verbatim>\<open>.numpy()\<close> returns it.
\<close>

definition normalize_intensity :: "real list \<Rightarrow> real \<Rightarrow> error + real list" where
  "normalize_intensity intensity target_max =
     (if intensity = [] then Inl RuntimeError
      else let max_intensity = max_abs intensity
           in if max_intensity = 0 then Inr intensity
              else Inr (map (\<lambda>x. x / max_intensity * target_max) intensity))"

text \<open>Python's \<^verbatim>\<open>int()\<close> of a float truncates towards zero.\<close>

definition py_int :: "real \<Rightarrow> int" where
  "py_int x = (if 0 \<le> x then \<lfloor>x\<rfloor> else \<lceil>x\<rceil>)"

text \<open>
  \<^verbatim>\<open>scipy.signal.windows.gaussian(M, std)\<close>: ones for \<open>M \<le> 1\<close>, else
  \<open>exp (- n\<^sup>2 / (2 std\<^sup>2))\<close> at \<open>n = i - (M - 1) / 2\<close>.
\<close>

definition gaussian_window :: "nat \<Rightarrow> real \<Rightarrow> real list" where
  "gaussian_window M std =
     (if M \<le> 1 then replicate M 1
      else map (\<lambda>i. exp (- ((real i - (real M - 1) / 2) ^ 2) / (2 * std ^ 2))) [0..<M])"

text \<open>
  \<^verbatim>\<open>F.conv1d(x, kernel, padding=p)\<close> on one channel: \<open>p\<close> zeros are put before and
  after the input and the kernel slides over the result (a cross-correlation). A kernel
  longer than the padded input raises \<^verbatim>\<open>RuntimeError\<close>.
\<close>

definition conv1d :: "real list \<Rightarrow> real list \<Rightarrow> nat \<Rightarrow> error + real list" where
  "conv1d xs kern p =
     (let padded = replicate p 0 @ xs @ replicate p 0
      in if length padded < length kern then Inl RuntimeError
         else Inr (map (\<lambda>i. sum_list (map (\<lambda>j. kern ! j * padded ! (i + j)) [0..<length kern]))
                       [0..<length padded + 1 - length kern]))"

text \<open>
  \<^verbatim>\<open>_convolve_spectrum\<close>. An empty grid raises \<^verbatim>\<open>IndexError\<close>; on a grid of one point
  the step is \<open>0 / 0\<close>, a NaN whose \<^verbatim>\<open>int()\<close> raises \<^verbatim>\<open>ValueError\<close>; a step of zero
  gives an infinite (or NaN) sigma in bins, whose \<^verbatim>\<open>int()\<close> raises
  \<^verbatim>\<open>OverflowError\<close> (\<^verbatim>\<open>ValueError\<close>); a negative window length raises
  \<^verbatim>\<open>ValueError\<close> in \<^verbatim>\<open>gaussian\<close>.
\<close>

definition kernel_size_of :: "real \<Rightarrow> int" where
  "kernel_size_of sigma_points = py_int (6 * sigma_points) OR 1"

definition instrument_kernel :: "mixed_simulator \<Rightarrow> real \<Rightarrow> error + real list" where
  "instrument_kernel ms sigma_nm =
     (let ws = mix_wavelengths ms in
      if ws = [] then Inl IndexError
      else if length ws - 1 = 0 then Inl ValueError
      else let wavelength_step = (last ws - hd ws) / real (length ws - 1) in
        if wavelength_step = 0 then (if sigma_nm = 0 then Inl ValueError else Inl OverflowError)
        else let sigma_points = sigma_nm / wavelength_step;
                 kernel_size = kernel_size_of sigma_points
             in if kernel_size < 0 then Inl ValueError
                else let w = gaussian_window (nat kernel_size) sigma_points
                     in Inr (map (\<lambda>x. x / sum_list w) w))"

text \<open>
  A tensor is its element type and its values. \<^verbatim>\<open>F.conv1d\<close> is called inside
  \<^verbatim>\<open>torch.cpu.amp.autocast()\<close>: on the CPU the lower precision of autocast is bfloat16
  and \<^verbatim>\<open>conv1d\<close> is one of the operations it casts, so the two float32 arguments are
  cast and the result is a bfloat16 tensor (its values are the sums of \<open>conv1d\<close>; their
  rounding to bfloat16 is outside the model). \<^verbatim>\<open>Tensor.numpy()\<close> raises
  \<^verbatim>\<open>TypeError\<close> on a bfloat16 tensor, an element type NumPy does not have.
\<close>

datatype dtype = Float32 | BFloat16

record tensor =
  t_dtype :: dtype
  t_values :: "real list"

definition autocast_conv1d :: "real list \<Rightarrow> real list \<Rightarrow> nat \<Rightarrow> error + tensor" where
  "autocast_conv1d xs kern p =
     (case conv1d xs kern p of
        Inl e \<Rightarrow> Inl e
      | Inr ys \<Rightarrow> Inr \<lparr> t_dtype = BFloat16, t_values = ys \<rparr>)"

definition numpy_of :: "tensor \<Rightarrow> error + real list" where
  "numpy_of t = (case t_dtype t of Float32 \<Rightarrow> Inr (t_values t) | BFloat16 \<Rightarrow> Inl TypeError)"

text \<open>
  \<^verbatim>\<open>_convolve_spectrum\<close> in two steps: \<open>convolved_tensor\<close> is the tensor that
  \<^verbatim>\<open>F.conv1d(spectrum_tensor, kernel, padding=kernel_size // 2).squeeze().cpu()\<close> evaluates
  to, and \<open>convolve_spectrum\<close> the whole method, which takes \<^verbatim>\<open>.numpy()\<close> of that tensor
  (the conversion \<^verbatim>\<open>astype(np.float32)\<close> that follows changes no value here).
\<close>

definition convolved_tensor :: "mixed_simulator \<Rightarrow> real list \<Rightarrow> real \<Rightarrow> error + tensor" where
  "convolved_tensor ms spectrum sigma_nm =
     (case instrument_kernel ms sigma_nm of
        Inl e \<Rightarrow> Inl e
      | Inr kern \<Rightarrow> autocast_conv1d spectrum kern (length kern div 2))"

definition convolve_spectrum :: "mixed_simulator \<Rightarrow> real list \<Rightarrow> real \<Rightarrow> error + real list" where
  "convolve_spectrum ms spectrum sigma_nm =
     (case convolved_tensor ms spectrum sigma_nm of
        Inl e \<Rightarrow> Inl e
      | Inr convolved \<Rightarrow> numpy_of convolved)"

text \<open>
  The convolution as the specification words it, with edge padding: the first and the last
  value of the spectrum are repeated before and after it, instead of zeros, and the
  convolved spectrum is returned. It is stated for comparison with the code only.
\<close>

definition conv1d_edge :: "real list \<Rightarrow> real list \<Rightarrow> nat \<Rightarrow> error + real list" where
  "conv1d_edge xs kern p =
     (let padded = replicate p (hd xs) @ xs @ replicate p (last xs)
      in if length padded < length kern then Inl RuntimeError
         else Inr (map (\<lambda>i. sum_list (map (\<lambda>j. kern ! j * padded ! (i + j)) [0..<length kern]))
                       [0..<length padded + 1 - length kern]))"

definition spec_convolve_edge_padded :: "mixed_simulator \<Rightarrow> real list \<Rightarrow> real \<Rightarrow> error + real list" where
  "spec_convolve_edge_padded ms spectrum sigma_nm =
     (case instrument_kernel ms sigma_nm of
        Inl e \<Rightarrow> Inl e
      | Inr kern \<Rightarrow> conv1d_edge spectrum kern (length kern div 2))"

text \<open>
  \<^verbatim>\<open>_saha_ratio\<close>. The quotients by the electron density and by \<open>k_B * temp\<close> raise
  \<^verbatim>\<open>ZeroDivisionError\<close> at zero. (A negative temperature makes the power complex in
  Python; the model is for temperatures that are not negative.)
\<close>

definition saha_ratio :: "real \<Rightarrow> real \<Rightarrow> real \<Rightarrow> error + real" where
  "saha_ratio ion_energy temp electron_density =
     (if electron_density = 0 \<or> temp = 0 then Inl ZeroDivisionError
      else let two_pi_me_kT_h2 =
                 ((2 * pi * m_e * (k_B * temp * (160217662 / 10 ^ 24))
                     / (h_planck * (160217662 / 10 ^ 27)) ^ 2) powr (3 / 2)) / 10 ^ 6;
               U_i = 1; U_ip1 = 1;
               saha_factor = (2 * U_ip1 / U_i) * two_pi_me_kT_h2 / electron_density
           in Inr (saha_factor * exp (- ion_energy / (k_B * temp))))"

text \<open>The width of the instrument kernel in grid bins: \<open>sigma_nm\<close> over the grid step.\<close>

definition sigma_in_bins :: "mixed_simulator \<Rightarrow> real \<Rightarrow> real" where
  "sigma_in_bins ms sigma_nm =
     sigma_nm / ((snd (wl_range (mix_config ms)) - fst (wl_range (mix_config ms)))
                  / real (resolution (mix_config ms) - 1))"

text \<open>
  \<^verbatim>\<open>generate_sample\<close>. The random draws are inputs: \<open>chosen\<close> is the result of
  \<^verbatim>\<open>np.random.choice(BASE_ELEMENTS, 7, replace=False)\<close> and \<open>uniforms k\<close> the value of the
  \<open>k\<close>-th call of \<^verbatim>\<open>np.random.uniform(5, 20)\<close> (one call per selected element that has an
  ionization energy). The ionization energies are a dictionary read with
  \<^verbatim>\<open>.get(key, 0.0)\<close>.
\<close>

record draws =
  chosen :: "string list"
  uniforms :: "nat \<Rightarrow> real"

record sample =
  sm_wavelengths :: "real list"
  sm_spectrum :: "real list"
  sm_labels :: "nat list"
  sm_atom_percentages :: "(string \<times> real) list"

definition reserved_keys :: "string list" where
  "reserved_keys = [''temperature'', ''electron_density'', ''delta_E_max'']"

definition index_of :: "'a list \<Rightarrow> 'a \<Rightarrow> nat" where
  "index_of xs x = length (takeWhile (\<lambda>y. y \<noteq> x) xs)"

definition selected_delta_E_max :: "mixed_simulator \<Rightarrow> string list \<Rightarrow> real" where
  "selected_delta_E_max ms sel =
     (let delta_E_values =
            filter (\<lambda>d. 0 < d)
              (concat (map (\<lambda>base. [dict_get (delta_E_max ms) (base @ ''_1'') 0,
                                     dict_get (delta_E_max ms) (base @ ''_2'') 0]) sel))
      in if delta_E_values = [] then 4 else Max (set delta_E_values))"

text \<open>
  The loop over the selected elements: the state is the dictionary of atom fractions, the
  running total of the drawn percentages and the number of draws made so far.
\<close>

fun percent_loop ::
  "(string \<rightharpoonup> real) \<Rightarrow> real \<Rightarrow> real \<Rightarrow> (nat \<Rightarrow> real) \<Rightarrow> string list \<Rightarrow>
   (string \<times> real) list \<times> real \<times> nat \<Rightarrow> error + ((string \<times> real) list \<times> real \<times> nat)" where
  "percent_loop ionization_energies temp electron_density u [] st = Inr st"
| "percent_loop ionization_energies temp electron_density u (base_elem # rest) (d, total_target_percentage, k) =
     (let ion_energy = (case ionization_energies (base_elem @ '' I'') of None \<Rightarrow> 0 | Some e \<Rightarrow> e)
      in if ion_energy = 0
         then percent_loop ionization_energies temp electron_density u rest
                (d, total_target_percentage, k)
         else case saha_ratio ion_energy temp electron_density of
                Inl e \<Rightarrow> Inl e
              | Inr saha \<Rightarrow>
                  let total_percentage = u k;
                      fraction_neutral = 1 / (1 + saha);
                      fraction_ion = saha / (1 + saha);
                      percentage_neutral = total_percentage * fraction_neutral;
                      percentage_ion = total_percentage * fraction_ion;
                      d1 = dict_set d (base_elem @ ''_1'') (percentage_neutral / 100);
                      d2 = dict_set d1 (base_elem @ ''_2'') (percentage_ion / 100)
                  in percent_loop ionization_energies temp electron_density u rest
                       (d2, total_target_percentage + total_percentage, Suc k))"

text \<open>
  The composition stage: the fractions rescaled by \<open>100 / total\<close>, then the three keys of
  the physical conditions; \<^verbatim>\<open>None\<close> when the total is zero.
\<close>

definition atom_percentages_dict ::
  "mixed_simulator \<Rightarrow> (string \<rightharpoonup> real) \<Rightarrow> draws \<Rightarrow> error + (string \<times> real) list option" where
  "atom_percentages_dict ms ionization_energies dr =
     (case percent_loop ionization_energies (current_T ms) (current_n_e ms) (uniforms dr)
             (chosen dr) ([], 0, 0) of
        Inl e \<Rightarrow> Inl e
      | Inr (d, total_target_percentage, k) \<Rightarrow>
          if total_target_percentage \<noteq> 0 then
            let scaling_factor = 100 / total_target_percentage;
                d1 = map (\<lambda>(key, v). (key, v * scaling_factor)) d;
                d2 = dict_set d1 ''temperature'' (current_T ms);
                d3 = dict_set d2 ''electron_density'' (current_n_e ms);
                d4 = dict_set d3 ''delta_E_max'' (selected_delta_E_max ms (chosen dr))
            in Inr (Some d4)
          else Inr None)"

text \<open>
  NumPy's broadcasting of a one-dimensional array into an array of \<open>n\<close> entries, as
  \<^verbatim>\<open>mixed_spectrum += spectrum\<close> and the assignment of a row do it: an array of \<open>n\<close>
  entries is taken as it is, an array of one entry is repeated, and any other length raises
  \<^verbatim>\<open>ValueError\<close>.
\<close>

definition broadcast_to :: "nat \<Rightarrow> real list \<Rightarrow> real list option" where
  "broadcast_to n xs =
     (if length xs = n then Some xs
      else if length xs = 1 then Some (replicate n (hd xs))
      else None)"

text \<open>
  The mixing loop over the selected simulators: each is simulated with its atom fraction,
  and the first spectrum whose temperature equals the target is added to the mixture and
  its contribution stored in the simulator's row (a row stays zero when no temperature
  matches).
\<close>

fun mix_loop ::
  "mixed_simulator \<Rightarrow> string list \<Rightarrow> real list \<Rightarrow> simulator list \<Rightarrow>
   real list \<times> real list list \<Rightarrow> error + (real list \<times> real list list)" where
  "mix_loop ms selected_target_elements atom_percentages [] acc = Inr acc"
| "mix_loop ms selected_target_elements atom_percentages (simulator # rest) (mixed_spectrum, rows) =
     (let idx = index_of selected_target_elements (element_label simulator);
          atom_percentage = atom_percentages ! idx
      in case simulate simulator atom_percentage of
           Inl e \<Rightarrow> Inl e
         | Inr r \<Rightarrow>
             (case find (\<lambda>(spectrum, t, contrib). t = current_T ms)
                     (zip (res_spectra r) (zip (res_temperatures r) (res_contributions r))) of
                None \<Rightarrow>
                  mix_loop ms selected_target_elements atom_percentages rest
                    (mixed_spectrum, rows @ [replicate (resolution (mix_config ms)) 0])
              | Some (spectrum, t, contrib) \<Rightarrow>
                  (case broadcast_to (resolution (mix_config ms)) spectrum of
                     None \<Rightarrow> Inl ValueError
                   | Some s \<Rightarrow>
                       (case broadcast_to (resolution (mix_config ms)) contrib of
                          None \<Rightarrow> Inl ValueError
                        | Some c \<Rightarrow>
                            mix_loop ms selected_target_elements atom_percentages rest
                              (map2 (+) mixed_spectrum s, rows @ [c])))))"

text \<open>
  The label of a bin: that of the first simulator with the largest contribution there,
  numbered from 1 in the species catalogue, when the contributions add up to the threshold
  at least; 0 otherwise.
\<close>

definition label_at :: "simulator list \<Rightarrow> real list list \<Rightarrow> nat \<Rightarrow> nat" where
  "label_at selected_simulators rows idx =
     (let contributions_at_point = map (\<lambda>row. row ! idx) rows;
          total_intensity = sum_list contributions_at_point
      in if intensity_threshold \<le> total_intensity then
           let dominant_sim_idx = index_of contributions_at_point (Max (set contributions_at_point));
               dominant_element = element_label (selected_simulators ! dominant_sim_idx)
           in if dominant_element \<in> set REQUIRED_ELEMENTS
              then index_of REQUIRED_ELEMENTS dominant_element + 1 else 0
         else 0)"

text \<open>
  The composition mapping a sample reports, from the dictionary of the composition stage
  (the comprehension before the \<^verbatim>\<open>return\<close>): the fractions of the species times 100, the
  three condition keys as they are. Then the sum of the species percentages of such a
  mapping, the three condition keys left out.
\<close>

definition reported_percentages :: "(string \<times> real) list \<Rightarrow> (string \<times> real) list" where
  "reported_percentages d =
     map (\<lambda>(key, v). (key, if key \<notin> set reserved_keys then v * 100 else v)) d"

definition composition_sum :: "(string \<times> real) list \<Rightarrow> real" where
  "composition_sum atom_percentages =
     sum_list (map snd (filter (\<lambda>(key, v). key \<notin> set reserved_keys) atom_percentages))"

text \<open>
  The spectral stage, from the dictionary of the composition stage to the sample.
  \<^verbatim>\<open>np.max\<close> of an empty mixture raises \<^verbatim>\<open>ValueError\<close>. The dense per-species array
  the code fills next to the labels is not returned and is left out.
\<close>

definition sample_of_dict ::
  "mixed_simulator \<Rightarrow> (string \<times> real) list \<Rightarrow> error + sample option" where
  "sample_of_dict ms d =
     (let selected_target_elements = filter (\<lambda>key. key \<notin> set reserved_keys) (map fst d);
          atom_percentages = map (\<lambda>elem. dict_get d elem 0) selected_target_elements;
          selected_simulators =
            filter (\<lambda>sim. element_label sim \<in> set selected_target_elements) (simulators ms)
      in if selected_simulators = [] then Inr None
         else case mix_loop ms selected_target_elements atom_percentages selected_simulators
                     (replicate (resolution (mix_config ms)) 0, []) of
                Inl e \<Rightarrow> Inl e
              | Inr (mixed_spectrum, rows) \<Rightarrow>
                  if mixed_spectrum = [] then Inl ValueError
                  else if Max (set mixed_spectrum) = 0 then Inr None
                  else case convolve_spectrum ms mixed_spectrum (convolution_sigma (mix_config ms)) of
                         Inl e \<Rightarrow> Inl e
                       | Inr convolved_spectrum \<Rightarrow>
                           (case normalize_intensity convolved_spectrum
                                   (target_max_intensity SIMULATION_CONFIG) of
                              Inl e \<Rightarrow> Inl e
                            | Inr normalized_spectrum \<Rightarrow>
                                Inr (Some
                                  \<lparr> sm_wavelengths = mix_wavelengths ms,
                                    sm_spectrum = normalized_spectrum,
                                    sm_labels = map (label_at selected_simulators rows)
                                                  [0..<resolution (mix_config ms)],
                                    sm_atom_percentages = reported_percentages d \<rparr>)))"

definition generate_sample ::
  "mixed_simulator \<Rightarrow> (string \<rightharpoonup> real) \<Rightarrow> draws \<Rightarrow> error + sample option" where
  "generate_sample ms ionization_energies dr =
     (case atom_percentages_dict ms ionization_energies dr of
        Inl e \<Rightarrow> Inl e
      | Inr None \<Rightarrow> Inr None
      | Inr (Some d) \<Rightarrow> sample_of_dict ms d)"

text \<open>The dictionary keys of a set of base elements: the neutral and the ionized species.\<close>

definition keys_of :: "string set \<Rightarrow> string set" where
  "keys_of B = (\<lambda>b. b @ ''_1'') ` B \<union> (\<lambda>b. b @ ''_2'') ` B"

section \<open>DatasetGenerator: the sample scheduler\<close>

text \<open>
  The state of NumPy's random generator is the stream of the raw numbers it will still
  produce. A choice without replacement removes the chosen position from the population,
  a choice with replacement and \<^verbatim>\<open>randint(0, n)\<close> reduce the raw number modulo the
  population size; every outcome the library can produce is the outcome of some stream.
\<close>

type_synonym rng = "nat \<Rightarrow> nat"

definition rng_tail :: "rng \<Rightarrow> rng" where
  "rng_tail g = (\<lambda>i. g (Suc i))"

fun choice_no_replace :: "'a list \<Rightarrow> nat \<Rightarrow> rng \<Rightarrow> 'a list \<times> rng" where
  "choice_no_replace xs 0 g = ([], g)"
| "choice_no_replace xs (Suc k) g =
     (if xs = [] then ([], g)
      else let i = g 0 mod length xs;
               (ys, g') = choice_no_replace (take i xs @ drop (Suc i) xs) k (rng_tail g)
           in (xs ! i # ys, g'))"

fun choice_replace :: "'a list \<Rightarrow> nat \<Rightarrow> rng \<Rightarrow> 'a list \<times> rng" where
  "choice_replace xs 0 g = ([], g)"
| "choice_replace xs (Suc k) g =
     (let (ys, g') = choice_replace xs k (rng_tail g) in (xs ! (g 0 mod length xs) # ys, g'))"

text \<open>
  \<^verbatim>\<open>_calculate_lte_electron_density\<close>; \<^verbatim>\<open>temp ** 0.5\<close> is the square root for the
  temperatures that are not negative.
\<close>

definition calculate_lte_electron_density :: "real \<Rightarrow> real \<Rightarrow> real" where
  "calculate_lte_electron_density temp delta_E = 16 * 10 ^ 11 * sqrt temp * delta_E ^ 3"

definition delta_E_max_value :: "(string \<times> real) list \<Rightarrow> real" where
  "delta_E_max_value delta_E_max_dict =
     (let delta_E_values = filter (\<lambda>v. 0 < v) (map snd delta_E_max_dict)
      in if delta_E_values = [] then 4 else Max (set delta_E_values))"

text \<open>
  The body of the loop over the temperatures in \<^verbatim>\<open>_generate_sample_params\<close>: the pairs
  of one temperature. Padding from an empty selection raises \<^verbatim>\<open>ValueError\<close> in
  \<^verbatim>\<open>np.random.choice\<close>.
\<close>

definition temp_params ::
  "config \<Rightarrow> (string \<times> real) list \<Rightarrow> real \<Rightarrow> nat \<Rightarrow> rng \<Rightarrow> error + ((real \<times> real) list \<times> rng)" where
  "temp_params cfg delta_E_max_dict T n_samples_for_temp g =
     (let n_e_min = calculate_lte_electron_density T (delta_E_max_value delta_E_max_dict);
          valid = filter (\<lambda>n_e. n_e_min \<le> n_e) (electron_density_range cfg);
          valid_n_e = (if valid = [] then electron_density_range cfg else valid);
          max_ne = min (length valid_n_e) 5;
          max_ne_per_temp = (if max_ne = 0 then length (electron_density_range cfg) else max_ne);
          (selected_n_e, g1) = choice_no_replace valid_n_e max_ne_per_temp g
      in if length selected_n_e < n_samples_for_temp then
           if selected_n_e = [] then Inl ValueError
           else let (additional_n_e, g2) =
                      choice_replace selected_n_e (n_samples_for_temp - length selected_n_e) g1
                in Inr (map (Pair T) (take n_samples_for_temp (selected_n_e @ additional_n_e)), g2)
         else Inr (map (Pair T) (take n_samples_for_temp selected_n_e), g1))"

text \<open>
  \<^verbatim>\<open>temp_specific_params\<close> is a dictionary keyed by the temperature; it is read at
  temperatures of the list only, so it is a function here.
\<close>

fun temps_loop ::
  "config \<Rightarrow> (string \<times> real) list \<Rightarrow> nat \<Rightarrow> nat \<Rightarrow> nat \<Rightarrow> real list \<Rightarrow>
   (real \<Rightarrow> (real \<times> real) list) \<Rightarrow> rng \<Rightarrow> error + ((real \<Rightarrow> (real \<times> real) list) \<times> rng)" where
  "temps_loop cfg dE samples_per_temp remainder i [] params g = Inr (params, g)"
| "temps_loop cfg dE samples_per_temp remainder i (T # rest) params g =
     (case temp_params cfg dE T (samples_per_temp + (if i < remainder then 1 else 0)) g of
        Inl e \<Rightarrow> Inl e
      | Inr (ps, g') \<Rightarrow>
          temps_loop cfg dE samples_per_temp remainder (Suc i) rest (params(T := params T @ ps)) g')"

record rr_state =
  sample_params :: "(real \<times> real) list"
  indices :: "real \<Rightarrow> nat"
  remaining :: "real \<Rightarrow> nat"
  total_remaining :: int

text \<open>One pass of the inner \<^verbatim>\<open>for\<close> of the interleaving, and one round over the temperatures.\<close>

definition rr_visit :: "(real \<Rightarrow> (real \<times> real) list) \<Rightarrow> rr_state \<Rightarrow> real \<Rightarrow> error + rr_state" where
  "rr_visit params st T =
     (if 0 < remaining st T then
        let idx = indices st T in
        if idx < length (params T) then
          Inr (st\<lparr> sample_params := sample_params st @ [params T ! idx],
                   indices := (indices st)(T := idx + 1),
                   remaining := (remaining st)(T := remaining st T - 1),
                   total_remaining := total_remaining st - 1 \<rparr>)
        else Inl IndexError
      else Inr st)"

fun rr_round :: "(real \<Rightarrow> (real \<times> real) list) \<Rightarrow> rr_state \<Rightarrow> real list \<Rightarrow> error + rr_state" where
  "rr_round params st [] = Inr st"
| "rr_round params st (T # rest) =
     (case rr_visit params st T of Inl e \<Rightarrow> Inl e | Inr st' \<Rightarrow> rr_round params st' rest)"

text \<open>
  The \<^verbatim>\<open>while total_remaining > 0\<close> loop. It may run forever (when the counter is
  positive and no temperature has a pair left), so its result is an option.
\<close>

partial_function (option) rr_while ::
  "real list \<Rightarrow> (real \<Rightarrow> (real \<times> real) list) \<Rightarrow> rr_state \<Rightarrow> (error + rr_state) option" where
  "rr_while temps params st =
     (if 0 < total_remaining st then
        (case rr_round params st temps of
           Inl e \<Rightarrow> Some (Inl e)
         | Inr st' \<Rightarrow> rr_while temps params st')
      else Some (Inr st))"

text \<open>The padding loop: \<open>n\<close> more pairs, each a copy of a random earlier one.\<close>

fun pad_loop :: "nat \<Rightarrow> (real \<times> real) list \<Rightarrow> rng \<Rightarrow> (real \<times> real) list" where
  "pad_loop 0 sp g = sp"
| "pad_loop (Suc n) sp g = pad_loop n (sp @ [sp ! (g 0 mod length sp)]) (rng_tail g)"

definition generate_sample_params ::
  "config \<Rightarrow> (string \<times> real) list \<Rightarrow> rng \<Rightarrow> (error + (real \<times> real) list) option" where
  "generate_sample_params cfg delta_E_max_dict g =
     (let temps = temperature_range cfg;
          num_temperatures = length temps
      in if num_temperatures = 0 then Some (Inl ZeroDivisionError)
         else
           let samples_per_temp = num_samples cfg div num_temperatures;
               remainder = num_samples cfg mod num_temperatures
           in case temps_loop cfg delta_E_max_dict samples_per_temp remainder 0 temps (\<lambda>T. []) g of
                Inl e \<Rightarrow> Some (Inl e)
              | Inr (params, g1) \<Rightarrow>
                  (case rr_while temps params
                          \<lparr> sample_params = [], indices = (\<lambda>T. 0),
                            remaining = (\<lambda>T. length (params T)),
                            total_remaining = int (sum_list (map (\<lambda>T. length (params T)) (remdups temps))) \<rparr> of
                     None \<Rightarrow> None
                   | Some (Inl e) \<Rightarrow> Some (Inl e)
                   | Some (Inr st) \<Rightarrow>
                       let sp = sample_params st in
                       if length sp < num_samples cfg then
                         (if sp = [] then Some (Inl ValueError)
                          else Some (Inr (pad_loop (num_samples cfg - length sp) sp g1)))
                       else if num_samples cfg < length sp then Some (Inr (take (num_samples cfg) sp))
                       else Some (Inr sp)))"

text \<open>
  The invariant of the interleaving: every pair listed for a temperature carries that
  temperature; and for every temperature the pairs taken and the pairs left add up to its
  list, the counter is the number of pairs left, and the output holds, for every
  temperature, as many pairs as were taken from its list, all of them pairs of the lists.
\<close>

definition params_wf :: "real list \<Rightarrow> (real \<Rightarrow> (real \<times> real) list) \<Rightarrow> bool" where
  "params_wf temps P \<longleftrightarrow> (\<forall>T \<in> set temps. \<forall>p \<in> set (P T). fst p = T)"

definition rr_inv :: "real list \<Rightarrow> (real \<Rightarrow> (real \<times> real) list) \<Rightarrow> rr_state \<Rightarrow> bool" where
  "rr_inv temps P st \<longleftrightarrow>
     (\<forall>T \<in> set temps. indices st T + remaining st T = length (P T))
   \<and> total_remaining st = int (sum (remaining st) (set temps))
   \<and> (\<forall>T \<in> set temps. count_list (map fst (sample_params st)) T = indices st T)
   \<and> length (sample_params st) = sum (indices st) (set temps)
   \<and> set (sample_params st) \<subseteq> (\<Union>T \<in> set temps. set (P T))"

section \<open>DatasetGenerator: deduplication, the driver and persistence\<close>

text \<open>
  The library functions behind the combination hash are parameters: the two float formats
  of the f-string, \<^verbatim>\<open>round(v, 6)\<close>, \<^verbatim>\<open>str\<close> of the sorted list and the SHA-256 digest.
  So is \<open>int_of_product c n\<close>, Python's \<^verbatim>\<open>int(c * n)\<close> for a float literal \<open>c\<close> and a
  length \<open>n\<close>: the product is rounded to a double before it is truncated, so it is not
  always the floor of the exact product (\<^verbatim>\<open>int(0.7 * 90)\<close> is 62).
\<close>

record pylib =
  fmt_2f :: "real \<Rightarrow> string"
  fmt_2e :: "real \<Rightarrow> string"
  py_round6 :: "real \<Rightarrow> real"
  py_repr :: "(string \<times> real) list \<Rightarrow> string"
  sha256_hex :: "string \<Rightarrow> string"
  int_of_product :: "real \<Rightarrow> nat \<Rightarrow> nat"

definition hash_combination :: "pylib \<Rightarrow> real \<Rightarrow> real \<Rightarrow> (string \<times> real) list \<Rightarrow> string" where
  "hash_combination lib temp n_e atom_percentages =
     (let elements_sorted =
            sort_key fst (map (\<lambda>(k, v). (k, py_round6 lib v))
                            (filter (\<lambda>(k, v). k \<notin> set reserved_keys) atom_percentages));
          combination_str = fmt_2f lib temp @ ''_'' @ fmt_2e lib n_e @ ''_'' @ py_repr lib elements_sorted
      in sha256_hex lib combination_str)"

record combination =
  cb_sample_id :: string
  cb_hash :: string
  cb_temperature :: real
  cb_electron_density :: real
  cb_elements :: "(string \<times> real) list"
  cb_delta_E_max :: real

text \<open>
  The combination log: a JSON document that is a list of entries, an entry being a
  combination or a value without a \<^verbatim>\<open>hash\<close>; or a file that does not parse to a list.
  The dataset file: the wavelength array, the three groups with their three datasets, and
  the attributes; each may be absent from an existing file.
\<close>

datatype json_entry = Entry combination | Malformed

datatype json_doc = Doc "json_entry list" | Unreadable

record split_group =
  g_spectra :: "real list list option"
  g_labels :: "nat list list option"
  g_atom_percentages :: "(string \<times> real) list list option"

record h5file =
  h5_wavelengths :: "real list option"
  h5_train :: "split_group option"
  h5_validation :: "split_group option"
  h5_test :: "split_group option"
  h5_lastbud :: "string option"
  h5_total_samples :: "nat option"
  h5_simulation_config :: "config option"

record fs =
  combinations_file :: "json_doc option"
  combinations_writable :: bool
  dataset_file :: "h5file option"
  backup_files :: "(string \<times> h5file) list"

text \<open>
  \<^verbatim>\<open>_load_used_combinations\<close>: the hashes of the entries up to the first one that raises;
  the exception is caught and logged.
\<close>

fun entry_hashes :: "json_entry list \<Rightarrow> string list" where
  "entry_hashes [] = []"
| "entry_hashes (Entry c # es) = cb_hash c # entry_hashes es"
| "entry_hashes (Malformed # es) = []"

definition load_used_combinations :: "fs \<Rightarrow> string set" where
  "load_used_combinations f =
     (case combinations_file f of
        None \<Rightarrow> {}
      | Some Unreadable \<Rightarrow> {}
      | Some (Doc es) \<Rightarrow> set (entry_hashes es))"

text \<open>
  \<^verbatim>\<open>_save_combination\<close>: read the log if it exists, append, write. Every exception (the
  log does not parse or is not a list, the file cannot be opened for writing) is caught and
  logged, and the file is then as it was.
\<close>

definition save_combination :: "fs \<Rightarrow> combination \<Rightarrow> fs" where
  "save_combination f c =
     (case combinations_file f of
        None \<Rightarrow> if combinations_writable f then f\<lparr> combinations_file := Some (Doc [Entry c]) \<rparr> else f
      | Some Unreadable \<Rightarrow> f
      | Some (Doc es) \<Rightarrow>
          if combinations_writable f then f\<lparr> combinations_file := Some (Doc (es @ [Entry c])) \<rparr> else f)"

record gen_state =
  spectra_list :: "real list list"
  labels_list :: "nat list list"
  wavelengths_list :: "real list list"
  atom_percentages_list :: "(string \<times> real) list list"
  used_combinations :: "string set"
  files :: fs
  calls :: nat

text \<open>
  The lines of the driver that accept a sample: the four appends, the combination record
  (reading \<^verbatim>\<open>atom_percentages['delta_E_max']\<close> raises \<^verbatim>\<open>KeyError\<close> when the key is
  missing, after the appends), the call of \<^verbatim>\<open>_save_combination\<close> and the new member of the
  set of used combinations.
\<close>

definition accept_sample ::
  "gen_state \<Rightarrow> real \<Rightarrow> real \<Rightarrow> sample \<Rightarrow> string \<Rightarrow> (error \<times> gen_state) + gen_state" where
  "accept_sample st T n_e smp combination_hash =
     (let atom_percentages = sm_atom_percentages smp;
          st1 = st\<lparr> spectra_list := spectra_list st @ [sm_spectrum smp],
                    labels_list := labels_list st @ [sm_labels smp],
                    wavelengths_list := wavelengths_list st @ [sm_wavelengths smp],
                    atom_percentages_list := atom_percentages_list st @ [atom_percentages] \<rparr>
      in case map_of atom_percentages ''delta_E_max'' of
           None \<Rightarrow> Inl (KeyError, st1)
         | Some delta \<Rightarrow>
             let comb = \<lparr> cb_sample_id = ''sample_'' @ show_nat (card (used_combinations st) + 1),
                          cb_hash = combination_hash,
                          cb_temperature = T,
                          cb_electron_density = n_e,
                          cb_elements = filter (\<lambda>(k, v). k \<notin> set reserved_keys) atom_percentages,
                          cb_delta_E_max = delta \<rparr>
             in Inr (st1\<lparr> files := save_combination (files st) comb,
                           used_combinations := insert combination_hash (used_combinations st) \<rparr>))"

text \<open>
  The retry loop of one scheduled pair, by the number of attempts left. The \<open>k\<close>-th call of
  \<^verbatim>\<open>generate_sample\<close> in the run uses the draws \<open>rnd k\<close>. An exception of
  \<^verbatim>\<open>generate_sample\<close> or of the accepting lines is not caught: it ends the run, in the
  state reached.
\<close>

fun attempt_loop ::
  "pylib \<Rightarrow> mixed_simulator \<Rightarrow> (string \<rightharpoonup> real) \<Rightarrow> (nat \<Rightarrow> draws) \<Rightarrow> real \<Rightarrow> real \<Rightarrow>
   nat \<Rightarrow> gen_state \<Rightarrow> (error \<times> gen_state) + gen_state" where
  "attempt_loop lib ms ie rnd T n_e 0 st = Inr st"
| "attempt_loop lib ms ie rnd T n_e (Suc attempts_left) st =
     (case generate_sample (ms\<lparr> current_T := T, current_n_e := n_e \<rparr>) ie (rnd (calls st)) of
        Inl e \<Rightarrow> Inl (e, st)
      | Inr None \<Rightarrow> attempt_loop lib ms ie rnd T n_e attempts_left (st\<lparr> calls := Suc (calls st) \<rparr>)
      | Inr (Some smp) \<Rightarrow>
          let st1 = st\<lparr> calls := Suc (calls st) \<rparr>;
              combination_hash = hash_combination lib T n_e (sm_atom_percentages smp)
          in if combination_hash \<in> used_combinations st1
             then attempt_loop lib ms ie rnd T n_e attempts_left st1
             else accept_sample st1 T n_e smp combination_hash)"

text \<open>
  The loop over the scheduled pairs. After each pair the progress test
  \<^verbatim>\<open>(i + 1) % (self.num_samples // 5)\<close> raises \<^verbatim>\<open>ZeroDivisionError\<close> when fewer than
  five samples are configured.
\<close>

fun sample_loop ::
  "pylib \<Rightarrow> config \<Rightarrow> mixed_simulator \<Rightarrow> (string \<rightharpoonup> real) \<Rightarrow> (nat \<Rightarrow> draws) \<Rightarrow>
   (real \<times> real) list \<Rightarrow> gen_state \<Rightarrow> (error \<times> gen_state) + gen_state" where
  "sample_loop lib cfg ms ie rnd [] st = Inr st"
| "sample_loop lib cfg ms ie rnd ((T, n_e) # rest) st =
     (case attempt_loop lib ms ie rnd T n_e 5 st of
        Inl err \<Rightarrow> Inl err
      | Inr st1 \<Rightarrow>
          if num_samples cfg div 5 = 0 then Inl (ZeroDivisionError, st1)
          else sample_loop lib cfg ms ie rnd rest st1)"

text \<open>
  The persistence part of \<^verbatim>\<open>generate_dataset\<close>: the split by a random permutation (drawn
  from the stream \<open>gp\<close>), the backup of an existing file, the check of its wavelength grid,
  the merge with its data and the write.
\<close>

definition existing_split :: "split_group option \<Rightarrow> real list list \<times> nat list list \<times> (string \<times> real) list list" where
  "existing_split grp =
     (case grp of
        None \<Rightarrow> ([], [], [])
      | Some sg \<Rightarrow>
          (case g_spectra sg of None \<Rightarrow> [] | Some x \<Rightarrow> x,
           case g_labels sg of None \<Rightarrow> [] | Some x \<Rightarrow> x,
           case g_atom_percentages sg of None \<Rightarrow> [] | Some x \<Rightarrow> x))"

definition combine_split ::
  "split_group option \<Rightarrow> gen_state \<Rightarrow> nat list \<Rightarrow> split_group" where
  "combine_split grp st idx =
     (case existing_split grp of
        (existing_spectra, existing_labels, existing_atom_percentages) \<Rightarrow>
          \<lparr> g_spectra = Some (existing_spectra @ map (\<lambda>i. spectra_list st ! i) idx),
            g_labels = Some (existing_labels @ map (\<lambda>i. labels_list st ! i) idx),
            g_atom_percentages =
              Some (existing_atom_percentages @ map (\<lambda>i. atom_percentages_list st ! i) idx) \<rparr>)"

definition group_size :: "split_group \<Rightarrow> nat" where
  "group_size sg = (case g_spectra sg of None \<Rightarrow> 0 | Some x \<Rightarrow> length x)"

definition persist :: "pylib \<Rightarrow> config \<Rightarrow> string \<Rightarrow> rng \<Rightarrow> gen_state \<Rightarrow> (error \<times> fs) + fs" where
  "persist lib cfg now gp st =
     (let n = length (spectra_list st);
          wavelengths_array = hd (wavelengths_list st);
          num_train = int_of_product lib (7 / 10) n;
          num_val = int_of_product lib (15 / 100) n;
          perm = fst (choice_no_replace [0..<n] n gp);
          train_idx = take num_train perm;
          val_idx = take num_val (drop num_train perm);
          test_idx = drop (num_train + num_val) perm;
          f1 = (case dataset_file (files st) of
                  None \<Rightarrow> files st
                | Some old \<Rightarrow>
                    (files st)\<lparr> backup_files := backup_files (files st) @
                                  [(''spectral_dataset_backup_'' @ now @ ''.h5'', old)] \<rparr>)
      in case dataset_file f1 of
           Some old \<Rightarrow>
             (case h5_wavelengths old of
                Some existing_wavelengths \<Rightarrow>
                  if existing_wavelengths \<noteq> wavelengths_array then Inl (ValueError, f1)
                  else
                    let tr = combine_split (h5_train old) st train_idx;
                        va = combine_split (h5_validation old) st val_idx;
                        te = combine_split (h5_test old) st test_idx
                    in Inr (f1\<lparr> dataset_file := Some (old\<lparr>
                                 h5_wavelengths := Some wavelengths_array,
                                 h5_train := Some tr, h5_validation := Some va, h5_test := Some te,
                                 h5_lastbud := Some now,
                                 h5_total_samples := Some (group_size tr + group_size va + group_size te),
                                 h5_simulation_config := Some cfg \<rparr>) \<rparr>)
              | None \<Rightarrow>
                  let tr = combine_split (h5_train old) st train_idx;
                      va = combine_split (h5_validation old) st val_idx;
                      te = combine_split (h5_test old) st test_idx
                  in Inr (f1\<lparr> dataset_file := Some (old\<lparr>
                               h5_wavelengths := Some wavelengths_array,
                               h5_train := Some tr, h5_validation := Some va, h5_test := Some te,
                               h5_lastbud := Some now,
                               h5_total_samples := Some (group_size tr + group_size va + group_size te),
                               h5_simulation_config := Some cfg \<rparr>) \<rparr>))
         | None \<Rightarrow>
             let tr = combine_split None st train_idx;
                 va = combine_split None st val_idx;
                 te = combine_split None st test_idx
             in Inr (f1\<lparr> dataset_file := Some
                       \<lparr> h5_wavelengths = Some wavelengths_array,
                         h5_train = Some tr, h5_validation = Some va, h5_test = Some te,
                         h5_lastbud = Some now,
                         h5_total_samples = Some (group_size tr + group_size va + group_size te),
                         h5_simulation_config = Some cfg \<rparr> \<rparr>))"

text \<open>The state of a run before its first pair: nothing accepted, the log loaded.\<close>

definition initial_state :: "fs \<Rightarrow> gen_state" where
  "initial_state f =
     \<lparr> spectra_list = [], labels_list = [], wavelengths_list = [], atom_percentages_list = [],
       used_combinations = load_used_combinations f, files = f, calls = 0 \<rparr>"

text \<open>
  \<^verbatim>\<open>generate_dataset\<close>. The result is the exception raised, if any, and the file system as
  the run leaves it; \<open>None\<close> stands for a run that does not end. \<open>g\<close> is the random stream
  after \<^verbatim>\<open>np.random.seed(42)\<close>.
\<close>

definition generate_dataset ::
  "pylib \<Rightarrow> config \<Rightarrow> simulator list \<Rightarrow> (string \<times> real) list \<Rightarrow> (string \<rightharpoonup> real) \<Rightarrow>
   rng \<Rightarrow> (nat \<Rightarrow> draws) \<Rightarrow> rng \<Rightarrow> string \<Rightarrow> fs \<Rightarrow> (error option \<times> fs) option" where
  "generate_dataset lib cfg sims delta_E_max_dict ionization_energies g rnd gp now f =
     (let st0 = initial_state f;
          mixed_simulator = \<lparr> simulators = sims, mix_config = cfg, delta_E_max = delta_E_max_dict,
                              current_T = 0, current_n_e = 0 \<rparr>
      in case generate_sample_params cfg delta_E_max_dict g of
           None \<Rightarrow> None
         | Some (Inl e) \<Rightarrow> Some (Some e, f)
         | Some (Inr scheduled) \<Rightarrow>
             (case sample_loop lib cfg mixed_simulator ionization_energies rnd scheduled st0 of
                Inl (e, st) \<Rightarrow> Some (Some e, files st)
              | Inr st \<Rightarrow>
                  if spectra_list st = [] then Some (Some ValueError, files st)
                  else (case persist lib cfg now gp st of
                          Inl (e, f') \<Rightarrow> Some (Some e, f')
                        | Inr f' \<Rightarrow> Some (None, f'))))"







section \<open>Concrete inputs\<close>

text \<open>A mixture simulator on the three-point grid 0, 1, 2, for concrete evaluations.\<close>

definition three_bin_mixture :: mixed_simulator where
  "three_bin_mixture =
     \<lparr> simulators = [],
       mix_config = SIMULATION_CONFIG\<lparr> resolution := 3, wl_range := (0, 2) \<rparr>,
       delta_E_max = [], current_T = 10000, current_n_e = 10 ^ 16 \<rparr>"

text \<open>
  The scenario of the specification: a grid of 100 points over 400 to 500 nm and one
  species with a single transition at wavelength \<open>wl\<close>, simulated at 10000 K. The
  configuration schedules five samples at that temperature and one electron density.
\<close>

definition scenario_config :: config where
  "scenario_config =
     SIMULATION_CONFIG\<lparr> resolution := 100, wl_range := (400, 500), num_samples := 5,
       temperature_range := [10000], electron_density_range := [10 ^ 16] \<rparr>"

definition scenario_simulator :: "real \<Rightarrow> simulator" where
  "scenario_simulator wl =
     \<lparr> nist_data = [[Num wl, Num (10 ^ 8), Num 3, Num 0, Num 1, Num 3, Junk]],
       element = ''Si'', ion = 1, temperatures = [10000], ionization_energy = 8,
       sim_config = scenario_config \<rparr>"

text \<open>
  The partition function and the line intensity of the scenario's transition at 10000 K,
  and the spectrum \<open>simulate\<close> accumulates for a line located at bin \<open>idx\<close>.
\<close>

definition scenario_Z :: real where
  "scenario_Z = 1 + 3 * exp (- 3 / (k_B * 10000))"

definition scenario_I :: real where
  "scenario_I = 3 * 10 ^ 8 * exp (- 3 / (k_B * 10000)) / scenario_Z"

definition shifted_spectrum :: "real \<Rightarrow> nat \<Rightarrow> real list" where
  "shifted_spectrum wl idx =
     add_window (replicate 100 0) (idx - 50) (min 100 (idx - 50 + 100))
       (map (\<lambda>p. scenario_I * 1 * p) (gaussian_profile (scenario_simulator wl) wl))"

text \<open>
  A mixture on the scenario grid with the one species of the scenario, at its temperature,
  with the ionization energy of silicon only and draws of 10 percent.
\<close>

definition scenario_mixture :: mixed_simulator where
  "scenario_mixture =
     \<lparr> simulators = [scenario_simulator 450],
       mix_config = scenario_config,
       delta_E_max = [(''Si_1'', 3)], current_T = 10000, current_n_e = 10 ^ 16 \<rparr>"

definition scenario_energies :: "string \<rightharpoonup> real" where
  "scenario_energies = [''Si I'' \<mapsto> 8]"

definition scenario_draws :: draws where
  "scenario_draws =
     \<lparr> chosen = [''Si'', ''Al'', ''Fe'', ''Ca'', ''O'', ''Na'', ''N''], uniforms = (\<lambda>k. 10) \<rparr>"

text \<open>
  A run of \<open>generate_dataset\<close> on the scenario: its configuration, its one simulator, the
  ionization energy of silicon, the same draws at every call.
\<close>

definition scenario_run :: "pylib \<Rightarrow> rng \<Rightarrow> rng \<Rightarrow> string \<Rightarrow> fs \<Rightarrow> (error option \<times> fs) option" where
  "scenario_run lib g gp now f =
     generate_dataset lib scenario_config [scenario_simulator 450] [(''Si_1'', 3)] scenario_energies
       g (\<lambda>k. scenario_draws) gp now f"





section \<open>Properties of the species simulator\<close>

lemma boltzmann_terms_nonneg:
  "\<forall>g \<in> set degeneracies. 0 \<le> g \<Longrightarrow>
   \<forall>t \<in> set (boltzmann_terms energy_levels degeneracies temperature). 0 \<le> t"
  by (auto simp: boltzmann_terms_def split: option.splits dest: set_zip_leftD)

text \<open>
  C7. For a temperature above zero the partition function returns a value \<open>Z\<close>; \<open>Z\<close> is the
  Boltzmann sum, or 1 when that sum is zero, so \<open>Z\<close> is never zero and the division by \<open>Z\<close>
  in the line intensity is defined; and with degeneracies that are not negative (statistical
  weights) \<open>Z\<close> is strictly positive, for a non-empty level set as for an empty one.
\<close>

theorem C7_partition_function_positive:
  assumes "0 < temperature"
  shows "\<exists>Z. partition_function energy_levels degeneracies temperature = Inr Z
           \<and> Z \<noteq> 0
           \<and> (sum_list (boltzmann_terms energy_levels degeneracies temperature) = 0 \<longrightarrow> Z = 1)
           \<and> (sum_list (boltzmann_terms energy_levels degeneracies temperature) \<noteq> 0 \<longrightarrow>
                Z = sum_list (boltzmann_terms energy_levels degeneracies temperature))
           \<and> ((\<forall>g \<in> set degeneracies. 0 \<le> g) \<longrightarrow> 0 < Z)
           \<and> (\<forall>energy g A. calculate_intensity temperature energy g A Z
                 = Inr (g * A * exp (- energy / (k_B * temperature)) / Z))"
proof -
  let ?s = "sum_list (boltzmann_terms energy_levels degeneracies temperature)"
  have nn: "(\<forall>g \<in> set degeneracies. 0 \<le> g) \<longrightarrow> 0 \<le> ?s"
    using boltzmann_terms_nonneg by (metis sum_list_nonneg)
  have "partition_function energy_levels degeneracies temperature = Inr (if ?s = 0 then 1 else ?s)"
    using assms by (simp add: partition_function_def Let_def)
  moreover have "(\<forall>g \<in> set degeneracies. 0 \<le> g) \<longrightarrow> 0 < (if ?s = 0 then 1 else ?s)"
    using nn by auto
  ultimately show ?thesis
    using assms by (auto simp: calculate_intensity_def)
qed

theorem C7_partition_function_positive_witness:
  "(0::real) < 10000
   \<and> (\<exists>Z. partition_function [Some 0, Some 2] [1, 3] 10000 = Inr Z
           \<and> Z \<noteq> 0
           \<and> (sum_list (boltzmann_terms [Some 0, Some 2] [1, 3] 10000) = 0 \<longrightarrow> Z = 1)
           \<and> (sum_list (boltzmann_terms [Some 0, Some 2] [1, 3] 10000) \<noteq> 0 \<longrightarrow>
                Z = sum_list (boltzmann_terms [Some 0, Some 2] [1, 3] 10000))
           \<and> ((\<forall>g \<in> set [1, 3 :: real]. 0 \<le> g) \<longrightarrow> 0 < Z)
           \<and> (\<forall>energy g A. calculate_intensity 10000 energy g A Z
                 = Inr (g * A * exp (- energy / (k_B * 10000)) / Z)))"
  using C7_partition_function_positive [of 10000 "[Some 0, Some 2]" "[1, 3]"] by simp

text \<open>
  C9. A simulator without transition rows, or whose rows yield no energy level, returns the
  grid with empty spectra, peak indices, labels, temperatures, line records and
  contributions, whatever the configured temperatures and the atom percentage: the result
  is a value, not an error.
\<close>

theorem C9_simulate_no_data:
  assumes "nist_data sim = [] \<or> build_levels (nist_data sim) = []"
  shows "simulate sim atom_percentage =
           Inr \<lparr> res_wavelengths = wavelengths sim, res_spectra = [], res_peak_indices = [],
                 res_peak_labels = [], res_temperatures = [], res_intensity_data = [],
                 res_contributions = [] \<rparr>"
  using assms by (auto simp: simulate_def empty_result_def Let_def)

theorem C9_simulate_no_data_witness:
  "(nist_data \<lparr> nist_data = [[Num 450, NoneV, Num 3, Num 0, Num 1, Num 3, Junk]],
                 element = ''Si'', ion = 1, temperatures = [6000, 8000],
                 ionization_energy = 8, sim_config = SIMULATION_CONFIG \<rparr> = []
    \<or> build_levels (nist_data \<lparr> nist_data = [[Num 450, NoneV, Num 3, Num 0, Num 1, Num 3, Junk]],
                 element = ''Si'', ion = 1, temperatures = [6000, 8000],
                 ionization_energy = 8, sim_config = SIMULATION_CONFIG \<rparr>) = [])
   \<and> simulate \<lparr> nist_data = [[Num 450, NoneV, Num 3, Num 0, Num 1, Num 3, Junk]],
                 element = ''Si'', ion = 1, temperatures = [6000, 8000],
                 ionization_energy = 8, sim_config = SIMULATION_CONFIG \<rparr> 1
       = Inr \<lparr> res_wavelengths =
                 wavelengths \<lparr> nist_data = [[Num 450, NoneV, Num 3, Num 0, Num 1, Num 3, Junk]],
                   element = ''Si'', ion = 1, temperatures = [6000, 8000],
                   ionization_energy = 8, sim_config = SIMULATION_CONFIG \<rparr>,
               res_spectra = [], res_peak_indices = [],
               res_peak_labels = [], res_temperatures = [], res_intensity_data = [],
               res_contributions = [] \<rparr>"
  using C9_simulate_no_data
    [of "\<lparr> nist_data = [[Num 450, NoneV, Num 3, Num 0, Num 1, Num 3, Junk]],
            element = ''Si'', ion = 1, temperatures = [6000, 8000],
            ionization_energy = 8, sim_config = SIMULATION_CONFIG \<rparr>" 1]
  by (simp add: build_levels_def level_step_def)

section \<open>Properties of the mixture simulator\<close>

lemma max_abs_pos: "xs \<noteq> [] \<Longrightarrow> max_abs xs \<noteq> 0 \<Longrightarrow> 0 < max_abs xs"
proof -
  assume a: "xs \<noteq> []" "max_abs xs \<noteq> 0"
  have "Max (abs ` set xs) \<in> abs ` set xs" using a by (intro Max_in) auto
  then have "0 \<le> max_abs xs" by (auto simp: max_abs_def)
  with a show ?thesis by simp
qed

lemma max_abs_scale:
  assumes "xs \<noteq> []" "max_abs xs \<noteq> 0"
  shows "max_abs (map (\<lambda>x. x / max_abs xs * t) xs) = \<bar>t\<bar>"
proof -
  let ?m = "max_abs xs"
  have m: "0 < ?m" using assms by (rule max_abs_pos)
  let ?f = "\<lambda>a::real. a / ?m * \<bar>t\<bar>"
  have mono: "mono ?f"
    using m by (auto intro!: monoI mult_right_mono divide_right_mono)
  have img: "abs ` set (map (\<lambda>x. x / ?m * t) xs) = ?f ` (abs ` set xs)"
    using m by (auto simp: image_image abs_mult)
  have "Max (?f ` (abs ` set xs)) = ?f (Max (abs ` set xs))"
    using assms by (intro mono_Max_commute [symmetric] mono) auto
  also have "\<dots> = \<bar>t\<bar>" using m by (simp add: max_abs_def)
  finally have "Max (?f ` (abs ` set xs)) = \<bar>t\<bar>" .
  then show ?thesis using img by (simp add: max_abs_def)
qed

text \<open>
  C4. For a spectrum whose largest absolute value is not zero, \<open>normalize_intensity\<close>
  returns a spectrum of the same length whose largest absolute value is the absolute value
  of the target; with the configured target peak intensity (0.8) it is that target. For a
  spectrum whose largest absolute value is zero the input is returned unchanged.
\<close>

theorem C4_normalize_intensity:
  assumes "intensity \<noteq> []"
  shows "(max_abs intensity \<noteq> 0 \<longrightarrow>
            (\<exists>out. normalize_intensity intensity target_max = Inr out
                 \<and> length out = length intensity \<and> max_abs out = \<bar>target_max\<bar>)
          \<and> (\<exists>out. normalize_intensity intensity (target_max_intensity SIMULATION_CONFIG) = Inr out
                 \<and> length out = length intensity
                 \<and> max_abs out = target_max_intensity SIMULATION_CONFIG))
       \<and> (max_abs intensity = 0 \<longrightarrow> normalize_intensity intensity target_max = Inr intensity)"
proof -
  have cfg: "\<bar>target_max_intensity SIMULATION_CONFIG\<bar> = target_max_intensity SIMULATION_CONFIG"
    by (simp add: SIMULATION_CONFIG_def)
  show ?thesis
    using assms max_abs_scale [of intensity target_max]
      max_abs_scale [of intensity "target_max_intensity SIMULATION_CONFIG"] cfg
    by (simp add: normalize_intensity_def Let_def)
qed

theorem C4_normalize_intensity_witness:
  "[3, -4, 1 :: real] \<noteq> [] \<and> max_abs [3, -4, 1] \<noteq> 0
   \<and> (\<exists>out. normalize_intensity [3, -4, 1] (target_max_intensity SIMULATION_CONFIG) = Inr out
          \<and> length out = length [3, -4, 1 :: real]
          \<and> max_abs out = target_max_intensity SIMULATION_CONFIG)
   \<and> [0, 0 :: real] \<noteq> [] \<and> max_abs [0, 0] = 0
   \<and> normalize_intensity [0, 0] (target_max_intensity SIMULATION_CONFIG) = Inr [0, 0]"
proof -
  have h1: "[3, -4, 1 :: real] \<noteq> []" and h2: "max_abs [3, -4, 1] \<noteq> 0"
    and h3: "[0, 0 :: real] \<noteq> []" and h4: "max_abs [0, 0] = 0"
    by (simp_all add: max_abs_def)
  show ?thesis
    using h1 h2 h3 h4
      C4_normalize_intensity [OF h1, of "target_max_intensity SIMULATION_CONFIG"]
      C4_normalize_intensity [OF h3, of "target_max_intensity SIMULATION_CONFIG"]
    by blast
qed

lemma length_linspace [simp]: "length (linspace lo hi n) = n"
  by (simp add: linspace_def)

lemma nth_linspace: "i < n \<Longrightarrow> linspace lo hi n ! i = lo + real i * ((hi - lo) / real (n - 1))"
  by (simp add: linspace_def)

lemma hd_linspace: "0 < n \<Longrightarrow> hd (linspace lo hi n) = lo"
  by (simp add: linspace_def hd_map upt_conv_Cons)

lemma last_linspace: "2 \<le> n \<Longrightarrow> last (linspace lo hi n) = hi"
proof -
  assume n: "2 \<le> n"
  then have ne: "linspace lo hi n \<noteq> []" by (auto simp: linspace_def)
  have "last (linspace lo hi n) = linspace lo hi n ! (n - 1)"
    using last_conv_nth [OF ne] by simp
  also have "\<dots> = lo + real (n - 1) * ((hi - lo) / real (n - 1))"
    using n by (intro nth_linspace) simp
  also have "\<dots> = hi" using n by simp
  finally show ?thesis .
qed

lemma kernel_size_of_odd:
  assumes "0 \<le> sp"
  shows "0 < kernel_size_of sp" "odd (kernel_size_of sp)"
proof -
  have "0 \<le> py_int (6 * sp)" using assms by (simp add: py_int_def)
  then have "0 \<le> kernel_size_of sp" by (simp add: kernel_size_of_def)
  moreover show "odd (kernel_size_of sp)" by (simp add: kernel_size_of_def even_or_iff)
  ultimately show "0 < kernel_size_of sp" by (cases "kernel_size_of sp = 0") auto
qed

lemma gaussian_window_pos: "\<forall>x \<in> set (gaussian_window M std). 0 < x"
  by (auto simp: gaussian_window_def)

lemma length_gaussian_window [simp]: "length (gaussian_window M std) = M"
  by (simp add: gaussian_window_def)

lemma sum_list_pos_real: "xs \<noteq> [] \<Longrightarrow> \<forall>x \<in> set xs. (0::real) < x \<Longrightarrow> 0 < sum_list xs"
  by (induction xs) (auto simp: add_pos_nonneg sum_list_nonneg less_imp_le)

lemma sum_list_div_const: "sum_list (map (\<lambda>x. x / c) w) = sum_list w / (c::real)"
  by (induction w) (simp_all add: add_divide_distrib)

lemma sum_list_normalised:
  assumes "sum_list (w :: real list) \<noteq> 0"
  shows "sum_list (map (\<lambda>x. x / sum_list w) w) = 1"
proof -
  have "sum_list (map (\<lambda>x. x / sum_list w) w) = sum_list w / sum_list w"
    by (rule sum_list_div_const)
  then show ?thesis using assms by simp
qed

lemma conv1d_same:
  assumes "odd k" "length kern = k" "xs \<noteq> []"
  shows "\<exists>out. conv1d xs kern (k div 2) = Inr out \<and> length out = length xs
           \<and> (\<forall>i < length xs. out ! i =
                 sum_list (map (\<lambda>j. kern ! j *
                   (if k div 2 \<le> i + j \<and> i + j < k div 2 + length xs
                    then xs ! (i + j - k div 2) else 0)) [0..<k]))"
proof -
  from assms(1) obtain p where k: "k = 2 * p + 1" by (auto elim: oddE)
  have p: "k div 2 = p" using k by simp
  let ?padded = "replicate p 0 @ xs @ replicate p (0::real)"
  have len: "length ?padded + 1 - length kern = length xs" using k assms by simp
  have notlt: "\<not> length ?padded < length kern" using k assms by (cases xs) auto
  have nth: "?padded ! n = (if p \<le> n \<and> n < p + length xs then xs ! (n - p) else 0)"
    if "n < length ?padded" for n
    using that by (auto simp: nth_append)
  have inner: "map (\<lambda>j. kern ! j * ?padded ! (i + j)) [0..<k]
      = map (\<lambda>j. kern ! j * (if p \<le> i + j \<and> i + j < p + length xs then xs ! (i + j - p) else 0)) [0..<k]"
    if "i < length xs" for i
  proof (rule map_cong [OF refl])
    fix j assume "j \<in> set [0..<k]"
    then have "j < k" by simp
    then have "i + j < length ?padded" using that k by simp
    then show "kern ! j * ?padded ! (i + j)
       = kern ! j * (if p \<le> i + j \<and> i + j < p + length xs then xs ! (i + j - p) else 0)"
      using nth by simp
  qed
  define out where "out = map (\<lambda>i. sum_list (map (\<lambda>j. kern ! j * ?padded ! (i + j)) [0..<length kern]))
                 [0..<length ?padded + 1 - length kern]"
  have eq: "conv1d xs kern p = Inr out"
    unfolding conv1d_def Let_def out_def using notlt by (simp only: if_False)
  have l: "length out = length xs" using len by (simp add: out_def)
  have el: "out ! i = sum_list (map (\<lambda>j. kern ! j *
                   (if p \<le> i + j \<and> i + j < p + length xs then xs ! (i + j - p) else 0)) [0..<k])"
    if "i < length xs" for i
  proof -
    have "out ! i = sum_list (map (\<lambda>j. kern ! j * ?padded ! (i + j)) [0..<k])"
      unfolding out_def using that len assms(2)
      by (simp only: nth_map length_upt nth_upt diff_zero add_0)
    then show ?thesis using inner [OF that] by simp
  qed
  show ?thesis unfolding p using eq l el by blast
qed


lemma instrument_kernel_ok:
  assumes "2 \<le> resolution (mix_config ms)"
    and "fst (wl_range (mix_config ms)) < snd (wl_range (mix_config ms))"
    and "0 \<le> sigma_nm"
  shows "\<exists>k. int k = kernel_size_of (sigma_in_bins ms sigma_nm) \<and> odd k
           \<and> instrument_kernel ms sigma_nm =
               Inr (map (\<lambda>x. x / sum_list (gaussian_window k (sigma_in_bins ms sigma_nm)))
                        (gaussian_window k (sigma_in_bins ms sigma_nm)))"
proof -
  let ?ws = "mix_wavelengths ms"
  let ?n = "resolution (mix_config ms)"
  let ?lo = "fst (wl_range (mix_config ms))"
  let ?hi = "snd (wl_range (mix_config ms))"
  have len: "length ?ws = ?n" by (simp add: mix_wavelengths_def)
  have ne: "?ws \<noteq> []" using assms(1) len by auto
  have hd: "hd ?ws = ?lo" using assms(1) by (simp add: mix_wavelengths_def hd_linspace)
  have last: "last ?ws = ?hi" using assms(1) by (simp add: mix_wavelengths_def last_linspace)
  let ?step = "(?hi - ?lo) / real (?n - 1)"
  have step: "0 < ?step" using assms(1,2) by simp
  have sp: "0 \<le> sigma_in_bins ms sigma_nm"
    unfolding sigma_in_bins_def using step assms(3) by (intro divide_nonneg_pos)
  define k where "k = nat (kernel_size_of (sigma_in_bins ms sigma_nm))"
  have k: "int k = kernel_size_of (sigma_in_bins ms sigma_nm)"
    using kernel_size_of_odd(1) [OF sp] by (simp add: k_def)
  have odd: "odd k" using kernel_size_of_odd(2) [OF sp] k by (metis even_of_nat_iff)
  have "instrument_kernel ms sigma_nm =
               Inr (map (\<lambda>x. x / sum_list (gaussian_window k (sigma_in_bins ms sigma_nm)))
                        (gaussian_window k (sigma_in_bins ms sigma_nm)))"
    unfolding instrument_kernel_def Let_def len hd last
    using ne assms(1,2) step kernel_size_of_odd(1) [OF sp]
    by (simp add: sigma_in_bins_def k_def len)
  then show ?thesis using k odd by blast
qed

lemma numpy_of_autocast:
  assumes "autocast_conv1d xs kern p = Inr t"
  shows "numpy_of t = Inl TypeError"
  using assms by (auto simp: autocast_conv1d_def numpy_of_def split: sum.splits)

lemma convolve_spectrum_raises: "\<exists>e. convolve_spectrum ms spectrum sigma_nm = Inl e"
proof (cases "convolved_tensor ms spectrum sigma_nm")
  case (Inl e)
  then show ?thesis by (simp add: convolve_spectrum_def)
next
  case (Inr t)
  then obtain kern where "autocast_conv1d spectrum kern (length kern div 2) = Inr t"
    by (auto simp: convolved_tensor_def split: sum.splits)
  then have "numpy_of t = Inl TypeError" by (rule numpy_of_autocast)
  then show ?thesis using Inr by (simp add: convolve_spectrum_def)
qed

lemma convolve_spectrum_no_result: "convolve_spectrum ms spectrum sigma_nm \<noteq> Inr out"
  using convolve_spectrum_raises [of ms spectrum sigma_nm] by auto

lemma convolved_tensor_ok:
  assumes "2 \<le> resolution (mix_config ms)"
    and "fst (wl_range (mix_config ms)) < snd (wl_range (mix_config ms))"
    and "0 \<le> sigma_nm"
    and "spectrum \<noteq> []"
  shows "\<exists>t kern k.
           instrument_kernel ms sigma_nm = Inr kern
         \<and> convolved_tensor ms spectrum sigma_nm = Inr t
         \<and> t_dtype t = BFloat16
         \<and> length kern = k \<and> odd k
         \<and> int k = py_int (6 * sigma_in_bins ms sigma_nm) OR 1
         \<and> kern = map (\<lambda>x. x / sum_list (gaussian_window k (sigma_in_bins ms sigma_nm)))
                       (gaussian_window k (sigma_in_bins ms sigma_nm))
         \<and> sum_list kern = 1
         \<and> length (t_values t) = length spectrum
         \<and> (\<forall>i < length spectrum. t_values t ! i =
               sum_list (map (\<lambda>j. kern ! j *
                   (if k div 2 \<le> i + j \<and> i + j < k div 2 + length spectrum
                    then spectrum ! (i + j - k div 2) else 0)) [0..<k]))"
proof -
  let ?sp = "sigma_in_bins ms sigma_nm"
  from instrument_kernel_ok [OF assms(1-3)] obtain k where
    k: "int k = kernel_size_of ?sp" "odd k"
    and ik: "instrument_kernel ms sigma_nm =
               Inr (map (\<lambda>x. x / sum_list (gaussian_window k ?sp)) (gaussian_window k ?sp))"
    by blast
  define kern where "kern = map (\<lambda>x. x / sum_list (gaussian_window k ?sp)) (gaussian_window k ?sp)"
  have lk: "length kern = k" by (simp add: kern_def)
  have kpos: "0 < k" using k(2) by (cases k) auto
  have "gaussian_window k ?sp \<noteq> []" using kpos by (metis length_gaussian_window length_0_conv less_numeral_extra(3))
  then have "0 < sum_list (gaussian_window k ?sp)"
    using gaussian_window_pos by (intro sum_list_pos_real) auto
  then have s1: "sum_list kern = 1" unfolding kern_def by (intro sum_list_normalised) simp
  from conv1d_same [OF k(2) lk assms(4)] obtain out where
    out: "conv1d spectrum kern (k div 2) = Inr out" "length out = length spectrum"
      "\<forall>i < length spectrum. out ! i =
               sum_list (map (\<lambda>j. kern ! j *
                   (if k div 2 \<le> i + j \<and> i + j < k div 2 + length spectrum
                    then spectrum ! (i + j - k div 2) else 0)) [0..<k])"
    by blast
  define t where "t = \<lparr> t_dtype = BFloat16, t_values = out \<rparr>"
  have cs: "convolved_tensor ms spectrum sigma_nm = Inr t"
    using ik out(1) lk by (simp add: convolved_tensor_def autocast_conv1d_def kern_def t_def)
  have ik': "instrument_kernel ms sigma_nm = Inr kern" using ik by (simp add: kern_def)
  have ks: "int k = py_int (6 * ?sp) OR 1" using k(1) by (simp add: kernel_size_of_def)
  have tv: "t_values t = out" "t_dtype t = BFloat16" by (simp_all add: t_def)
  show ?thesis
    using ik' cs lk k(2) ks kern_def s1 out(2,3) unfolding tv [symmetric] by blast
qed

lemma convolve_spectrum_type_error:
  assumes "2 \<le> resolution (mix_config ms)"
    and "fst (wl_range (mix_config ms)) < snd (wl_range (mix_config ms))"
    and "0 \<le> sigma_nm"
    and "spectrum \<noteq> []"
  shows "convolve_spectrum ms spectrum sigma_nm = Inl TypeError"
proof -
  from convolved_tensor_ok [OF assms] obtain t where
    "convolved_tensor ms spectrum sigma_nm = Inr t" "t_dtype t = BFloat16" by blast
  then show ?thesis by (simp add: convolve_spectrum_def numpy_of_def)
qed

text \<open>
  C6 (as amended). On a grid of at least two points with an ascending range, a width that
  is not negative and a non-empty spectrum, the convolution step builds the Gaussian
  window of \<open>k\<close> points divided by its sum (so it sums to 1), where \<open>k\<close> is six times the
  width in bins, truncated and made odd by \<open>OR 1\<close>, and convolves the spectrum with it
  under a padding of \<open>k div 2\<close> zeros on each side: the tensor of the convolution has the
  length of the input, and its bin \<open>i\<close> is the kernel applied around bin \<open>i\<close> of the
  input, the bins beyond either end of the input counting as zero. What the method does
  with that tensor is not part of the statement.
\<close>

theorem C6_convolve_spectrum_zero_padded:
  assumes "2 \<le> resolution (mix_config ms)"
    and "fst (wl_range (mix_config ms)) < snd (wl_range (mix_config ms))"
    and "0 \<le> sigma_nm"
    and "spectrum \<noteq> []"
  shows "\<exists>t kern k.
           instrument_kernel ms sigma_nm = Inr kern
         \<and> convolved_tensor ms spectrum sigma_nm = Inr t
         \<and> length kern = k \<and> odd k
         \<and> int k = py_int (6 * sigma_in_bins ms sigma_nm) OR 1
         \<and> kern = map (\<lambda>x. x / sum_list (gaussian_window k (sigma_in_bins ms sigma_nm)))
                       (gaussian_window k (sigma_in_bins ms sigma_nm))
         \<and> sum_list kern = 1
         \<and> length (t_values t) = length spectrum
         \<and> (\<forall>i < length spectrum. t_values t ! i =
               sum_list (map (\<lambda>j. kern ! j *
                   (if k div 2 \<le> i + j \<and> i + j < k div 2 + length spectrum
                    then spectrum ! (i + j - k div 2) else 0)) [0..<k]))"
  using convolved_tensor_ok [OF assms] by blast

lemma upt_3: "[0..<3] = [0, 1, 2]" by code_simp

lemma three_bin_grid: "mix_wavelengths three_bin_mixture = [0, 1, 2]"
  by (simp add: three_bin_mixture_def mix_wavelengths_def linspace_def SIMULATION_CONFIG_def upt_3)

lemma three_bin_kernel_size: "kernel_size_of (1 / 2) = 3"
  by (simp add: kernel_size_of_def py_int_def)

lemma three_bin_window: "gaussian_window 3 (1 / 2) = [exp (- 2), 1, exp (- 2)]"
  by (simp add: gaussian_window_def upt_3 power2_eq_square)

lemma three_bin_kernel: "instrument_kernel three_bin_mixture (1 / 2)
   = Inr [exp (- 2) / (1 + 2 * exp (- 2)), 1 / (1 + 2 * exp (- 2)), exp (- 2) / (1 + 2 * exp (- 2))]"
  by (simp add: instrument_kernel_def three_bin_grid three_bin_kernel_size three_bin_window Let_def)

lemma three_bin_tensor: "convolved_tensor three_bin_mixture [1, 1, 1] (1 / 2)
   = Inr \<lparr> t_dtype = BFloat16,
           t_values = [(1 + exp (- 2)) / (1 + 2 * exp (- 2)), 1, (1 + exp (- 2)) / (1 + 2 * exp (- 2))] \<rparr>"
proof -
  have pos: "0 < 1 + 2 * exp (- 2 :: real)" by (simp add: add_pos_pos)
  show ?thesis using pos
    by (simp add: convolved_tensor_def autocast_conv1d_def three_bin_kernel conv1d_def upt_3 Let_def
        add_divide_distrib [symmetric])
qed

lemma three_bin_convolve: "convolve_spectrum three_bin_mixture [1, 1, 1] (1 / 2) = Inl TypeError"
  by (simp add: convolve_spectrum_def three_bin_tensor numpy_of_def)

lemma three_bin_edge_padded: "spec_convolve_edge_padded three_bin_mixture [1, 1, 1] (1 / 2) = Inr [1, 1, 1]"
proof -
  have pos: "0 < 1 + 2 * exp (- 2 :: real)" by (simp add: add_pos_pos)
  show ?thesis using pos
    by (simp add: spec_convolve_edge_padded_def three_bin_kernel conv1d_edge_def upt_3 Let_def
        add_divide_distrib [symmetric])
qed

text \<open>
  C6 as stated fails, in two ways. The padding is with zeros, not with the edge values: on
  a flat spectrum of three bins a kernel that sums to 1 applied with edge padding gives the
  flat spectrum, while the values of the tensor the code computes are below 1 in the first
  and the last bin. And the method returns no spectrum: the tensor is a bfloat16 tensor,
  on which \<^verbatim>\<open>.numpy()\<close> raises \<^verbatim>\<open>TypeError\<close>.
\<close>

theorem C6_edge_padding_counterexample:
  "map_sum id t_values (convolved_tensor three_bin_mixture [1, 1, 1] (1 / 2))
     \<noteq> spec_convolve_edge_padded three_bin_mixture [1, 1, 1] (1 / 2)
   \<and> convolve_spectrum three_bin_mixture [1, 1, 1] (1 / 2) = Inl TypeError"
  by (simp add: three_bin_tensor three_bin_convolve three_bin_edge_padded)

theorem C6_convolve_spectrum_zero_padded_witness:
  "2 \<le> resolution (mix_config three_bin_mixture)
   \<and> fst (wl_range (mix_config three_bin_mixture)) < snd (wl_range (mix_config three_bin_mixture))
   \<and> (0::real) \<le> 1 / 2 \<and> [1, 1, 1 :: real] \<noteq> []
   \<and> (\<exists>t kern k.
           instrument_kernel three_bin_mixture (1 / 2) = Inr kern
         \<and> convolved_tensor three_bin_mixture [1, 1, 1] (1 / 2) = Inr t
         \<and> length kern = k \<and> odd k
         \<and> int k = py_int (6 * sigma_in_bins three_bin_mixture (1 / 2)) OR 1
         \<and> sum_list kern = 1
         \<and> length (t_values t) = length [1, 1, 1 :: real])"
proof -
  have h1: "2 \<le> resolution (mix_config three_bin_mixture)"
    and h2: "fst (wl_range (mix_config three_bin_mixture)) < snd (wl_range (mix_config three_bin_mixture))"
    by (simp_all add: three_bin_mixture_def)
  have h3: "(0::real) \<le> 1 / 2" and h4: "[1, 1, 1 :: real] \<noteq> []" by simp_all
  show ?thesis
    using h1 h2 h3 h4 C6_convolve_spectrum_zero_padded [OF h1 h2 h3 h4] by blast
qed

section \<open>The scenario of a single line\<close>

lemma show_nat_1: "show_nat 1 = ''1''" by code_simp
lemma show_nat_Suc_0: "show_nat (Suc 0) = ''1''" using show_nat_1 by simp
lemma show_nat_2: "show_nat 2 = ''2''" by code_simp

lemma searchsorted_eq:
  assumes "k \<le> length ws" "\<forall>i<k. ws ! i < x" "k < length ws \<Longrightarrow> \<not> ws ! k < x"
  shows "searchsorted ws x = k"
proof -
  have "takeWhile (\<lambda>w. w < x) ws = take k ws"
    using assms by (intro takeWhile_eq_take_P_nth) auto
  then show ?thesis using assms(1) by (simp add: searchsorted_def)
qed

lemma scenario_grid: "wavelengths (scenario_simulator wl) = linspace 400 500 100"
  by (simp add: wavelengths_def scenario_simulator_def scenario_config_def)

lemma scenario_grid_nth:
  "i < 100 \<Longrightarrow> wavelengths (scenario_simulator wl) ! i = 400 + real i * (100 / 99)"
  by (simp add: scenario_grid nth_linspace)

lemma scenario_levels: "build_levels (nist_data (scenario_simulator wl)) = [(0, 1), (3, 3)]"
  by (simp add: build_levels_def level_step_def scenario_simulator_def scenario_config_def)

lemma scenario_Z_pos: "0 < scenario_Z"
  by (simp add: scenario_Z_def add_pos_pos)

lemma scenario_partition:
  "partition_function (map (Some \<circ> fst) [(0, 1), (3, 3)]) (map snd [(0, 1), (3, 3)]) 10000
     = Inr scenario_Z"
  using scenario_Z_pos
  by (simp add: partition_function_def boltzmann_terms_def scenario_Z_def Let_def)

lemma scenario_I_pos: "0 < scenario_I"
  using scenario_Z_pos by (simp add: scenario_I_def)

lemma scenario_simulate:
  assumes "searchsorted (linspace 400 500 100) wl = idx" "idx < 100"
  shows "simulate (scenario_simulator wl) a =
     Inr \<lparr> res_wavelengths = linspace 400 500 100,
           res_spectra = [add_window (replicate 100 0) (idx - 50) (min 100 (idx - 50 + 100))
                            (map (\<lambda>p. scenario_I * a * p) (gaussian_profile (scenario_simulator wl) wl))],
           res_peak_indices = [[idx]],
           res_peak_labels = [[class_index ''Si_1'']],
           res_temperatures = [10000],
           res_intensity_data = [[\<lparr> lr_wavelength = wl, lr_intensity = scenario_I * a,
                                    lr_element_label = ''Si_1'', lr_index = idx \<rparr>]],
           res_contributions = [add_window (replicate 100 0) (idx - 50) (min 100 (idx - 50 + 100))
                            (map (\<lambda>p. scenario_I * a * p) (gaussian_profile (scenario_simulator wl) wl))] \<rparr>"
proof -
  let ?sim = "scenario_simulator wl"
  have lbl: "element_label ?sim = ''Si_1''"
    by (simp add: element_label_def scenario_simulator_def scenario_config_def show_nat_Suc_0)
  have res: "resolution (sim_config ?sim) = 100" by (simp add: scenario_simulator_def scenario_config_def)
  have data: "nist_data ?sim = [[Num wl, Num (10 ^ 8), Num 3, Num 0, Num 1, Num 3, Junk]]"
    by (simp add: scenario_simulator_def scenario_config_def)
  have temps: "temperatures ?sim = [10000]" by (simp add: scenario_simulator_def scenario_config_def)
  have lenp: "length (gaussian_profile ?sim wl) = 100"
    by (simp add: gaussian_profile_def scenario_grid)
  have ci: "calculate_intensity 10000 3 3 100000000 scenario_Z = Inr scenario_I"
    by (simp add: calculate_intensity_def scenario_I_def)
  have w: "idx - 50 < min 100 (idx - 50 + 100)" using assms(2) by simp
  have ne: "gaussian_profile ?sim wl \<noteq> []" using lenp by auto
  let ?st0 = "\<lparr> intensities = replicate 100 0, element_contributions = replicate 100 0,
              peak_idx = [], peak_label = [], temp_intensity_data = [] \<rparr>"
  let ?c = "map (\<lambda>p. scenario_I * a * p) (gaussian_profile ?sim wl)"
  let ?win = "add_window (replicate 100 0) (idx - 50) (min 100 (idx - 50 + 100)) ?c"
  let ?st1 = "\<lparr> intensities = ?win, element_contributions = ?win,
              peak_idx = [idx], peak_label = [class_index ''Si_1''],
              temp_intensity_data = [\<lparr> lr_wavelength = wl, lr_intensity = scenario_I * a,
                                    lr_element_label = ''Si_1'', lr_index = idx \<rparr>] \<rparr>"
  have step: "line_step ?sim a 10000 scenario_Z ?st0
                [Num wl, Num (10 ^ 8), Num 3, Num 0, Num 1, Num 3, Junk] = Inr ?st1"
    using assms w ne by (simp add: line_step_def ci scenario_grid res lbl lenp Let_def)
  have tmp: "simulate_temp ?sim a [(0, 1), (3, 3)] 10000 = Inr ?st1"
    unfolding simulate_temp_def scenario_partition data res
    using step by simp
  show ?thesis
    unfolding simulate_def Let_def scenario_levels temps
    by (simp add: data tmp empty_result_def scenario_grid)
qed


lemma gauss_le:
  assumes "\<bar>x - c\<bar> \<le> \<bar>y - c\<bar>"
  shows "exp (- (1 / 2) * ((y - c) / s) ^ 2) \<le> exp (- (1 / 2) * ((x - c) / s) ^ 2 :: real)"
proof -
  have "(x - c) ^ 2 \<le> (y - c) ^ 2" using assms by (simp add: abs_le_square_iff)
  then have "(x - c) ^ 2 / s ^ 2 \<le> (y - c) ^ 2 / s ^ 2" by (intro divide_right_mono) auto
  then show ?thesis by (simp add: power_divide)
qed

lemma gauss_less:
  assumes "\<bar>x - c\<bar> < \<bar>y - c\<bar>" "s \<noteq> 0"
  shows "exp (- (1 / 2) * ((y - c) / s) ^ 2) < exp (- (1 / 2) * ((x - c) / s) ^ 2 :: real)"
proof -
  have "(x - c) ^ 2 < (y - c) ^ 2" using assms(1) abs_le_square_iff [of "y - c" "x - c"] by linarith
  moreover have "0 < s ^ 2" using assms(2) by simp
  ultimately have "(x - c) ^ 2 / s ^ 2 < (y - c) ^ 2 / s ^ 2" by (intro divide_strict_right_mono)
  then show ?thesis by (simp add: power_divide)
qed

lemma search_475: "searchsorted (linspace 400 500 100) 475 = 75"
proof (rule searchsorted_eq)
  show "75 \<le> length (linspace 400 500 100)" by simp
  show "\<forall>i<75. linspace 400 500 100 ! i < 475"
  proof (intro allI impI)
    fix i :: nat assume i: "i < 75"
    then have "real i \<le> 74" by simp
    then have "400 + real i * (100 / 99) \<le> 400 + 74 * (100 / 99)" by simp
    also have "\<dots> < (475::real)" by simp
    finally show "linspace 400 500 100 ! i < 475" using i by (simp add: nth_linspace)
  qed
  show "\<not> linspace 400 500 100 ! 75 < 475" by (simp add: nth_linspace)
qed

lemma search_450: "searchsorted (linspace 400 500 100) 450 = 50"
proof (rule searchsorted_eq)
  show "50 \<le> length (linspace 400 500 100)" by simp
  show "\<forall>i<50. linspace 400 500 100 ! i < 450"
  proof (intro allI impI)
    fix i :: nat assume i: "i < 50"
    then have "real i \<le> 49" by simp
    then have "400 + real i * (100 / 99) \<le> 400 + 49 * (100 / 99)" by simp
    also have "\<dots> < (450::real)" by simp
    finally show "linspace 400 500 100 ! i < 450" using i by (simp add: nth_linspace)
  qed
  show "\<not> linspace 400 500 100 ! 50 < 450" by (simp add: nth_linspace)
qed


lemma length_shifted [simp]: "length (shifted_spectrum wl idx) = 100"
  by (simp add: shifted_spectrum_def add_window_def)

lemma profile_nth:
  "j < 100 \<Longrightarrow> gaussian_profile (scenario_simulator wl) wl ! j
     = exp (- (1 / 2) * ((400 + real j * (100 / 99) - wl) / (1 / 10)) ^ 2) / ((1 / 10) * sqrt (2 * pi))"
  by (simp add: gaussian_profile_def scenario_grid nth_linspace)
    (simp add: scenario_simulator_def scenario_config_def SIMULATION_CONFIG_def)

lemma shifted_nth:
  assumes "i < 100" "idx < 100"
  shows "shifted_spectrum wl idx ! i =
     (if idx - 50 \<le> i then
        scenario_I * (exp (- (1 / 2) * ((400 + real (i - (idx - 50)) * (100 / 99) - wl) / (1 / 10)) ^ 2)
                        / ((1 / 10) * sqrt (2 * pi)))
      else 0)"
proof -
  have "i - (idx - 50) < 100" using assms by simp
  then show ?thesis
    using assms profile_nth [of "i - (idx - 50)" wl]
    by (simp add: shifted_spectrum_def add_window_def gaussian_profile_def scenario_grid)
qed

lemma norm_pos: "0 < (1 / 10) * sqrt (2 * pi)" by simp

lemma shifted_475_le: 
  assumes "i < 100"
  shows "shifted_spectrum 475 75 ! i \<le> shifted_spectrum 475 75 ! 99"
proof (cases "25 \<le> i")
  case False
  then show ?thesis using assms scenario_I_pos by (simp add: shifted_nth)
next
  case True
  define j where "j = i - 25"
  have j: "j \<le> 74" using assms by (simp add: j_def)
  then have "real j \<le> 74" by simp
  then have "400 + real j * (100 / 99) \<le> 400 + 74 * (100 / 99)" by simp
  then have "\<bar>400 + 74 * (100 / 99) - 475\<bar> \<le> \<bar>400 + real j * (100 / 99) - 475\<bar>" by simp
  from gauss_le [OF this, of "1 / 10"]
  have "exp (- (1 / 2) * ((400 + real j * (100 / 99) - 475) / (1 / 10)) ^ 2) / ((1 / 10) * sqrt (2 * pi))
     \<le> exp (- (1 / 2) * ((400 + 74 * (100 / 99) - 475) / (1 / 10)) ^ 2) / ((1 / 10) * sqrt (2 * pi))"
    using norm_pos by (intro divide_right_mono) auto
  then have "scenario_I * (exp (- (1 / 2) * ((400 + real j * (100 / 99) - 475) / (1 / 10)) ^ 2) / ((1 / 10) * sqrt (2 * pi)))
     \<le> scenario_I * (exp (- (1 / 2) * ((400 + 74 * (100 / 99) - 475) / (1 / 10)) ^ 2) / ((1 / 10) * sqrt (2 * pi)))"
    using scenario_I_pos by (intro mult_left_mono) auto
  then show ?thesis using True assms by (simp add: shifted_nth j_def)
qed


lemma shifted_475_less:
  assumes "j = 49 \<or> j = 50"
  shows "shifted_spectrum 475 75 ! (25 + j) < shifted_spectrum 475 75 ! 99"
proof -
  have "real j \<le> 50" using assms by auto
  then have "400 + real j * (100 / 99) \<le> 400 + 50 * (100 / 99)" by simp
  then have "\<bar>400 + 74 * (100 / 99) - 475\<bar> < \<bar>400 + real j * (100 / 99) - 475\<bar>" by simp
  from gauss_less [OF this, of "1 / 10"]
  have "exp (- (1 / 2) * ((400 + real j * (100 / 99) - 475) / (1 / 10)) ^ 2) / ((1 / 10) * sqrt (2 * pi))
     < exp (- (1 / 2) * ((400 + 74 * (100 / 99) - 475) / (1 / 10)) ^ 2) / ((1 / 10) * sqrt (2 * pi))"
    using norm_pos by (intro divide_strict_right_mono) auto
  then have "scenario_I * (exp (- (1 / 2) * ((400 + real j * (100 / 99) - 475) / (1 / 10)) ^ 2) / ((1 / 10) * sqrt (2 * pi)))
     < scenario_I * (exp (- (1 / 2) * ((400 + 74 * (100 / 99) - 475) / (1 / 10)) ^ 2) / ((1 / 10) * sqrt (2 * pi)))"
    using scenario_I_pos by (intro mult_strict_left_mono) auto
  then show ?thesis using assms by (auto simp add: shifted_nth)
qed

lemma Max_nth:
  assumes "k < length (xs :: real list)" "\<And>i. i < length xs \<Longrightarrow> xs ! i \<le> xs ! k"
  shows "Max (set xs) = xs ! k"
proof (rule Max_eqI)
  show "finite (set xs)" by simp
  show "xs ! k \<in> set xs" using assms(1) by simp
  fix y assume "y \<in> set xs"
  then obtain i where "i < length xs" "xs ! i = y" by (auto simp: in_set_conv_nth)
  then show "y \<le> xs ! k" using assms(2) by auto
qed

text \<open>
  C5. The line's profile is evaluated on the whole grid, so its peak already sits at the bin
  of the line; \<open>simulate\<close> then adds it into the window that starts at
  \<open>idx - resolution div 2\<close>, which moves the profile by that many bins whenever the line
  lies in the upper half of the grid. In the scenario grid (100 points over 400 to 500 nm,
  10000 K) a single line at 475 nm is located at bin 75, between the grid points 74 and 75,
  but the spectrum has its maximum in the last bin, at 500 nm, and bins 74 and 75 are
  strictly below it.
\<close>

theorem C5_line_at_475_lands_in_last_bin:
  "\<exists>r s. simulate (scenario_simulator 475) 1 = Inr r
        \<and> res_spectra r = [s] \<and> length s = 100 \<and> res_peak_indices r = [[75]]
        \<and> wavelengths (scenario_simulator 475) ! 74 < 475
        \<and> 475 < wavelengths (scenario_simulator 475) ! 75
        \<and> wavelengths (scenario_simulator 475) ! 99 = 500
        \<and> Max (set s) = s ! 99 \<and> s ! 74 < s ! 99 \<and> s ! 75 < s ! 99"
proof -
  let ?s = "shifted_spectrum 475 75"
  have sim: "simulate (scenario_simulator 475) 1 =
     Inr \<lparr> res_wavelengths = linspace 400 500 100,
           res_spectra = [?s],
           res_peak_indices = [[75]],
           res_peak_labels = [[class_index ''Si_1'']],
           res_temperatures = [10000],
           res_intensity_data = [[\<lparr> lr_wavelength = 475, lr_intensity = scenario_I * 1,
                                    lr_element_label = ''Si_1'', lr_index = 75 \<rparr>]],
           res_contributions = [?s] \<rparr>"
    unfolding shifted_spectrum_def by (rule scenario_simulate [OF search_475]) simp
  have mx: "Max (set ?s) = ?s ! 99" by (rule Max_nth) (simp_all add: shifted_475_le)
  have l74: "?s ! 74 < ?s ! 99" using shifted_475_less [of 49] by simp
  have l75: "?s ! 75 < ?s ! 99" using shifted_475_less [of 50] by simp
  have g: "wavelengths (scenario_simulator 475) ! 74 < 475"
    "475 < wavelengths (scenario_simulator 475) ! 75"
    "wavelengths (scenario_simulator 475) ! 99 = 500"
    by (simp_all add: scenario_grid_nth)
  show ?thesis using sim mx l74 l75 g by simp
qed

lemma shifted_450_le:
  assumes "i < 100"
  shows "shifted_spectrum 450 50 ! i \<le> shifted_spectrum 450 50 ! 49"
proof -
  have "i \<le> 49 \<or> 50 \<le> i" by linarith
  then have "real i \<le> 49 \<or> 50 \<le> real i" by auto
  then have "400 + real i * (100 / 99) \<le> 400 + 49 * (100 / 99) \<or> 400 + 50 * (100 / 99) \<le> 400 + real i * (100 / 99)"
    by auto
  then have "\<bar>400 + 49 * (100 / 99) - 450\<bar> \<le> \<bar>400 + real i * (100 / 99) - 450\<bar>" by auto
  from gauss_le [OF this, of "1 / 10"]
  have "exp (- (1 / 2) * ((400 + real i * (100 / 99) - 450) / (1 / 10)) ^ 2) / ((1 / 10) * sqrt (2 * pi))
     \<le> exp (- (1 / 2) * ((400 + 49 * (100 / 99) - 450) / (1 / 10)) ^ 2) / ((1 / 10) * sqrt (2 * pi))"
    using norm_pos by (intro divide_right_mono) auto
  then have "scenario_I * (exp (- (1 / 2) * ((400 + real i * (100 / 99) - 450) / (1 / 10)) ^ 2) / ((1 / 10) * sqrt (2 * pi)))
     \<le> scenario_I * (exp (- (1 / 2) * ((400 + 49 * (100 / 99) - 450) / (1 / 10)) ^ 2) / ((1 / 10) * sqrt (2 * pi)))"
    using scenario_I_pos by (intro mult_left_mono) auto
  then show ?thesis using assms by (simp add: shifted_nth)
qed

lemma shifted_450_tie: "shifted_spectrum 450 50 ! 50 = shifted_spectrum 450 50 ! 49"
  by (simp add: shifted_nth power2_eq_square)

text \<open>
  The scenario of the specification itself holds: a line at 450 nm is located at bin 50,
  the window starts at bin 0 and nothing moves; bins 49 and 50 are equally near 450 nm and
  both carry the maximum.
\<close>

lemma scenario_450_peak:
  "\<exists>r s. simulate (scenario_simulator 450) 1 = Inr r
        \<and> res_spectra r = [s] \<and> length s = 100 \<and> res_peak_indices r = [[50]]
        \<and> \<bar>wavelengths (scenario_simulator 450) ! 49 - 450\<bar> = 50 / 99
        \<and> \<bar>wavelengths (scenario_simulator 450) ! 50 - 450\<bar> = 50 / 99
        \<and> Max (set s) = s ! 49 \<and> s ! 50 = s ! 49"
proof -
  let ?s = "shifted_spectrum 450 50"
  have sim: "simulate (scenario_simulator 450) 1 =
     Inr \<lparr> res_wavelengths = linspace 400 500 100,
           res_spectra = [?s],
           res_peak_indices = [[50]],
           res_peak_labels = [[class_index ''Si_1'']],
           res_temperatures = [10000],
           res_intensity_data = [[\<lparr> lr_wavelength = 450, lr_intensity = scenario_I * 1,
                                    lr_element_label = ''Si_1'', lr_index = 50 \<rparr>]],
           res_contributions = [?s] \<rparr>"
    unfolding shifted_spectrum_def by (rule scenario_simulate [OF search_450]) simp
  have mx: "Max (set ?s) = ?s ! 49" by (rule Max_nth) (simp_all add: shifted_450_le)
  have g: "\<bar>wavelengths (scenario_simulator 450) ! 49 - 450\<bar> = 50 / 99"
    "\<bar>wavelengths (scenario_simulator 450) ! 50 - 450\<bar> = 50 / 99"
    by (simp_all add: scenario_grid_nth)
  show ?thesis using sim mx g shifted_450_tie by simp
qed

section \<open>Composition of a sample\<close>

lemma dict_set_fresh: "k \<notin> fst ` set d \<Longrightarrow> dict_set d k v = d @ [(k, v)]"
  by (induction d) auto

lemma saha_ratio_pos:
  assumes "0 < temp" "0 < electron_density"
  shows "\<exists>S. saha_ratio ion_energy temp electron_density = Inr S \<and> 0 < S"
proof -
  define b where "b = 2 * pi * m_e * (k_B * temp * (160217662 / 10 ^ 24))
                     / (h_planck * (160217662 / 10 ^ 27)) ^ 2"
  have c: "0 < k_B" "0 < m_e" "0 < h_planck" by (simp_all add: m_e_def k_B_def h_planck_def)
  have "0 < 2 * pi * m_e * (k_B * temp * (160217662 / 10 ^ 24))"
    using c assms(1) by (intro mult_pos_pos) simp_all
  moreover have "0 < (h_planck * (160217662 / 10 ^ 27)) ^ 2"
    using c by (intro zero_less_power mult_pos_pos) simp_all
  ultimately have bpos: "0 < b" unfolding b_def by (rule divide_pos_pos)
  then have "0 < b powr (3 / 2)" by simp
  then have "0 < (2 * 1 / 1) * (b powr (3 / 2) / 10 ^ 6) / electron_density
                   * exp (- ion_energy / (k_B * temp))"
    using assms(2) by simp
  moreover have "saha_ratio ion_energy temp electron_density =
     Inr ((2 * 1 / 1) * (b powr (3 / 2) / 10 ^ 6) / electron_density
                   * exp (- ion_energy / (k_B * temp)))"
    using assms unfolding saha_ratio_def Let_def b_def by simp
  ultimately show ?thesis by blast
qed

lemma keys_of_mono: "A \<subseteq> B \<Longrightarrow> keys_of A \<subseteq> keys_of B"
  by (auto simp: keys_of_def)

lemma key1_fresh: "b \<notin> B \<Longrightarrow> b @ ''_1'' \<notin> keys_of B"
  by (auto simp: keys_of_def)

lemma key2_fresh: "b \<notin> B \<Longrightarrow> b @ ''_2'' \<notin> keys_of B"
  by (auto simp: keys_of_def)

lemma keys_of_insert: "keys_of (insert b B) = insert (b @ ''_1'') (insert (b @ ''_2'') (keys_of B))"
  by (auto simp: keys_of_def)

lemma percent_loop_sum:
  assumes "percent_loop ie T ne u sel (d, tot, k) = Inr (d', tot', k')"
    and "0 < T" "0 < ne" "distinct sel" "set sel \<inter> B = {}"
    and "fst ` set d \<subseteq> keys_of B" "sum_list (map snd d) = tot / 100"
  shows "sum_list (map snd d') = tot' / 100 \<and> fst ` set d' \<subseteq> keys_of (B \<union> set sel)"
  using assms
proof (induction sel arbitrary: d tot k B)
  case Nil
  then show ?case by simp
next
  case (Cons b rest)
  let ?E = "case ie (b @ '' I'') of None \<Rightarrow> 0 | Some e \<Rightarrow> e"
  have bB: "b \<notin> B" and brest: "b \<notin> set rest" and drest: "distinct rest"
    and restB: "set rest \<inter> B = {}"
    using Cons.prems by auto
  show ?case
  proof (cases "?E = 0")
    case True
    then have "percent_loop ie T ne u rest (d, tot, k) = Inr (d', tot', k')"
      using Cons.prems(1) by (simp add: Let_def)
    from Cons.IH [OF this Cons.prems(2,3) drest restB Cons.prems(6,7)]
    have "sum_list (map snd d') = tot' / 100" "fst ` set d' \<subseteq> keys_of (B \<union> set rest)" by auto
    moreover have "keys_of (B \<union> set rest) \<subseteq> keys_of (B \<union> set (b # rest))"
      by (rule keys_of_mono) auto
    ultimately show ?thesis by blast
  next
    case False
    from saha_ratio_pos [OF Cons.prems(2,3)] obtain S where
      S: "saha_ratio ?E T ne = Inr S" "0 < S" by blast
    let ?d1 = "d @ [(b @ ''_1'', u k * (1 / (1 + S)) / 100)]"
    let ?d2 = "?d1 @ [(b @ ''_2'', u k * (S / (1 + S)) / 100)]"
    have f1: "b @ ''_1'' \<notin> fst ` set d" using key1_fresh [OF bB] Cons.prems(6) by auto
    have f2: "b @ ''_2'' \<notin> fst ` set ?d1" using key2_fresh [OF bB] Cons.prems(6) by auto
    have d1: "dict_set d (b @ ''_1'') (u k * (1 / (1 + S)) / 100) = ?d1"
      by (rule dict_set_fresh [OF f1])
    have d2: "dict_set ?d1 (b @ ''_2'') (u k * (S / (1 + S)) / 100) = ?d2"
      by (rule dict_set_fresh [OF f2])
    have run: "percent_loop ie T ne u rest (?d2, tot + u k, Suc k) = Inr (d', tot', k')"
      using Cons.prems(1) False S(1) d1 d2 by (simp add: Let_def)
    have keys: "fst ` set ?d2 \<subseteq> keys_of (insert b B)"
      using Cons.prems(6) by (auto simp: keys_of_insert)
    have "1 / (1 + S) + S / (1 + S) = 1" using S(2) by (simp add: add_divide_distrib [symmetric])
    then have "u k * (1 / (1 + S)) + u k * (S / (1 + S)) = u k"
      by (metis distrib_left mult.right_neutral)
    then have "(u k * (1 / (1 + S)) + u k * (S / (1 + S))) / 100 = u k / 100" by simp
    then have "u k * (1 / (1 + S)) / 100 + u k * (S / (1 + S)) / 100 = u k / 100"
      by (simp only: add_divide_distrib)
    moreover have "sum_list (map snd ?d2)
        = sum_list (map snd d) + (u k * (1 / (1 + S)) / 100 + u k * (S / (1 + S)) / 100)"
      by simp
    ultimately have sum: "sum_list (map snd ?d2) = (tot + u k) / 100"
      using Cons.prems(7) by (simp only: add_divide_distrib)
    have restB': "set rest \<inter> insert b B = {}" using restB brest by auto
    from Cons.IH [OF run Cons.prems(2,3) drest restB' keys sum]
    show ?thesis by simp
  qed
qed

lemma keys_of_not_reserved: "key \<in> keys_of B \<Longrightarrow> key \<notin> set reserved_keys"
  by (auto simp: keys_of_def reserved_keys_def)


lemma sum_scaled: "sum_list (map snd (map (\<lambda>(key, v). (key, v * c)) d)) = sum_list (map snd d) * (c::real)"
  by (induction d) (auto simp: distrib_right)

lemma reported_unreserved:
  assumes "\<forall>key \<in> fst ` set d. key \<notin> set reserved_keys"
  shows "filter (\<lambda>(key, v). key \<notin> set reserved_keys) (reported_percentages d)
         = map (\<lambda>(key, v). (key, v * (100::real))) d"
  using assms by (induction d) (auto simp: reported_percentages_def)

lemma reported_reserved:
  "filter (\<lambda>(key, v). key \<notin> set reserved_keys)
     (reported_percentages
        [(''temperature'', a), (''electron_density'', b), (''delta_E_max'', c :: real)]) = []"
  by (simp add: reported_percentages_def reserved_keys_def)

lemma reported_append:
  "reported_percentages (d @ d') = reported_percentages d @ reported_percentages d'"
  by (simp add: reported_percentages_def)

lemma atom_percentages_dict_sum:
  assumes "atom_percentages_dict ms ie dr = Inr (Some d)"
    and "0 < current_T ms" "0 < current_n_e ms" "distinct (chosen dr)"
  shows "composition_sum (reported_percentages d) = 100" and "composition_sum d = 1"
proof -
  from assms(1) obtain d0 tot k where
    loop: "percent_loop ie (current_T ms) (current_n_e ms) (uniforms dr) (chosen dr) ([], 0, 0)
             = Inr (d0, tot, k)"
    and tot: "tot \<noteq> 0"
    and d: "d = dict_set (dict_set (dict_set (map (\<lambda>(key, v). (key, v * (100 / tot))) d0)
                 ''temperature'' (current_T ms)) ''electron_density'' (current_n_e ms))
                 ''delta_E_max'' (selected_delta_E_max ms (chosen dr))"
    by (auto simp: atom_percentages_dict_def Let_def split: sum.splits if_splits)
  from percent_loop_sum [OF loop assms(2,3,4), of "{}"]
  have sum0: "sum_list (map snd d0) = tot / 100" and keys0: "fst ` set d0 \<subseteq> keys_of (set (chosen dr))"
    by (simp_all add: keys_of_def)
  let ?d1 = "map (\<lambda>(key, v). (key, v * (100 / tot))) d0"
  have keys1: "fst ` set ?d1 = fst ` set d0" by force
  have unres: "\<forall>key \<in> fst ` set ?d1. key \<notin> set reserved_keys"
    using keys0 keys_of_not_reserved unfolding keys1 by blast
  have t: "''temperature'' \<notin> fst ` set ?d1" using unres by (auto simp: reserved_keys_def)
  let ?d2 = "?d1 @ [(''temperature'', current_T ms)]"
  have e: "''electron_density'' \<notin> fst ` set ?d2" using unres by (auto simp: reserved_keys_def)
  let ?d3 = "?d2 @ [(''electron_density'', current_n_e ms)]"
  have x: "''delta_E_max'' \<notin> fst ` set ?d3" using unres by (auto simp: reserved_keys_def)
  have d': "d = ?d1 @ [(''temperature'', current_T ms), (''electron_density'', current_n_e ms),
                       (''delta_E_max'', selected_delta_E_max ms (chosen dr))]"
    unfolding d dict_set_fresh [OF t] dict_set_fresh [OF e] dict_set_fresh [OF x] by simp
  have "filter (\<lambda>(key, v). key \<notin> set reserved_keys) (reported_percentages d)
        = map (\<lambda>(key, v). (key, v * 100)) ?d1"
    unfolding d' reported_append filter_append reported_reserved reported_unreserved [OF unres] by simp
  then have "composition_sum (reported_percentages d) = sum_list (map snd d0) * (100 / tot) * 100"
    unfolding composition_sum_def by (simp only: sum_scaled)
  also have "\<dots> = 100" using sum0 tot by simp
  finally show "composition_sum (reported_percentages d) = 100" .
  have "filter (\<lambda>(key, v). key \<notin> set reserved_keys) ?d1 = ?d1"
    using unres by (intro filter_True) auto
  then have "filter (\<lambda>(key, v). key \<notin> set reserved_keys) d = ?d1"
    unfolding d' filter_append by (simp add: reserved_keys_def)
  then have "composition_sum d = sum_list (map snd d0) * (100 / tot)"
    unfolding composition_sum_def by (simp only: sum_scaled)
  also have "\<dots> = 1" using sum0 tot by simp
  finally show "composition_sum d = 1" .
qed


lemma sample_of_dict_no_sample: "sample_of_dict ms d \<noteq> Inr (Some smp)"
  by (auto simp: sample_of_dict_def Let_def convolve_spectrum_no_result
      split: sum.splits if_splits prod.splits)

lemma generate_sample_no_sample: "generate_sample ms ie dr \<noteq> Inr (Some smp)"
  by (auto simp: generate_sample_def sample_of_dict_no_sample split: sum.splits option.splits)

text \<open>
  C3. The composition mapping \<open>generate_sample\<close> reports is \<open>reported_percentages d\<close>
  for the dictionary \<open>d\<close> of its composition stage. For every call whose composition
  stage ends with a dictionary, at a temperature and an electron density above zero and
  with distinct selected elements (the choice is without replacement), the fractions of the
  species in the dictionary add up to 1 and the percentages of the species in the reported
  mapping, that is the mapping without the keys \<open>temperature\<close>, \<open>electron_density\<close>
  and \<open>delta_E_max\<close>, add up to 100 (exactly, in real arithmetic, hence within 0.001).
  The statement is on the mapping and not on a returned sample because no call returns
  one (\<open>generate_sample_no_sample\<close>).
\<close>

theorem C3_composition_sums_to_100:
  assumes "atom_percentages_dict ms ionization_energies dr = Inr (Some d)"
    and "0 < current_T ms" "0 < current_n_e ms" "distinct (chosen dr)"
  shows "composition_sum d = 1
       \<and> composition_sum (reported_percentages d) = 100
       \<and> \<bar>composition_sum (reported_percentages d) - 100\<bar> \<le> 1 / 1000"
  using atom_percentages_dict_sum [OF assms] by simp

lemma scenario_percent_loop:
  assumes "saha_ratio 8 10000 (10 ^ 16) = Inr S"
  shows "percent_loop scenario_energies 10000 (10 ^ 16) (\<lambda>k. 10)
           [''Si'', ''Al'', ''Fe'', ''Ca'', ''O'', ''Na'', ''N''] ([], 0, 0)
         = Inr ([(''Si_1'', 10 * (1 / (1 + S)) / 100), (''Si_2'', 10 * (S / (1 + S)) / 100)], 10, 1)"
  using assms by (simp add: scenario_energies_def Let_def)

lemma scenario_dict:
  assumes "saha_ratio 8 10000 (10 ^ 16) = Inr S"
  shows "atom_percentages_dict scenario_mixture scenario_energies scenario_draws
         = Inr (Some [(''Si_1'', 10 * (1 / (1 + S)) / 100 * (100 / 10)),
                      (''Si_2'', 10 * (S / (1 + S)) / 100 * (100 / 10)),
                      (''temperature'', 10000), (''electron_density'', 10 ^ 16),
                      (''delta_E_max'', selected_delta_E_max scenario_mixture (chosen scenario_draws))])"
proof -
  have "percent_loop scenario_energies (current_T scenario_mixture) (current_n_e scenario_mixture)
          (uniforms scenario_draws) (chosen scenario_draws) ([], 0, 0)
         = Inr ([(''Si_1'', 10 * (1 / (1 + S)) / 100), (''Si_2'', 10 * (S / (1 + S)) / 100)], 10, 1)"
    using scenario_percent_loop [OF assms] by (simp add: scenario_mixture_def scenario_config_def scenario_draws_def)
  then show ?thesis
    unfolding atom_percentages_dict_def by (simp add: Let_def scenario_mixture_def scenario_config_def)
qed

theorem C3_composition_sums_to_100_witness:
  "0 < current_T scenario_mixture \<and> 0 < current_n_e scenario_mixture
   \<and> distinct (chosen scenario_draws)
   \<and> (\<exists>d. atom_percentages_dict scenario_mixture scenario_energies scenario_draws = Inr (Some d)
          \<and> map fst (reported_percentages d)
              = [''Si_1'', ''Si_2'', ''temperature'', ''electron_density'', ''delta_E_max'']
          \<and> composition_sum d = 1
          \<and> composition_sum (reported_percentages d) = 100
          \<and> \<bar>composition_sum (reported_percentages d) - 100\<bar> \<le> 1 / 1000)"
proof -
  have h1: "0 < current_T scenario_mixture" and h2: "0 < current_n_e scenario_mixture"
    and h3: "distinct (chosen scenario_draws)"
    by (simp_all add: scenario_mixture_def scenario_config_def scenario_draws_def)
  from saha_ratio_pos [of 10000 "10 ^ 16" 8] obtain S where
    S: "saha_ratio 8 10000 (10 ^ 16) = Inr S" by auto
  define d where "d = [(''Si_1'', 10 * (1 / (1 + S)) / 100 * (100 / 10)),
                      (''Si_2'', 10 * (S / (1 + S)) / 100 * (100 / 10)),
                      (''temperature'', 10000), (''electron_density'', 10 ^ 16),
                      (''delta_E_max'', selected_delta_E_max scenario_mixture (chosen scenario_draws))]"
  have dict: "atom_percentages_dict scenario_mixture scenario_energies scenario_draws = Inr (Some d)"
    using scenario_dict [OF S] by (simp add: d_def)
  have keys: "map fst (reported_percentages d)
              = [''Si_1'', ''Si_2'', ''temperature'', ''electron_density'', ''delta_E_max'']"
    by (simp add: d_def reported_percentages_def)
  note hundred = C3_composition_sums_to_100 [OF dict h1 h2 h3]
  show ?thesis
    apply (intro conjI exI [of _ d])
    using h1 h2 h3 dict keys hundred by simp_all
qed

text \<open>
  On the scenario the call of \<open>generate_sample\<close> passes the composition stage and the
  mixing loop, finds a mixture that is not zero and ends in the convolution with
  \<^verbatim>\<open>TypeError\<close>.
\<close>

lemma scenario_label: "element_label (scenario_simulator wl) = ''Si_1''"
  by (simp add: element_label_def scenario_simulator_def scenario_config_def show_nat_Suc_0)

lemma scenario_mix:
  "mix_loop scenario_mixture [''Si_1'', ''Si_2''] [a, b] [scenario_simulator 450] (replicate 100 0, [])
   = Inr (map2 (+) (replicate 100 0)
            (add_window (replicate 100 0) 0 100
               (map (\<lambda>p. scenario_I * a * p) (gaussian_profile (scenario_simulator 450) 450))),
          [add_window (replicate 100 0) 0 100
               (map (\<lambda>p. scenario_I * a * p) (gaussian_profile (scenario_simulator 450) 450))])"
proof -
  have sim: "simulate (scenario_simulator 450) a = Inr
         \<lparr> res_wavelengths = linspace 400 500 100,
           res_spectra = [add_window (replicate 100 0) 0 100
                            (map (\<lambda>p. scenario_I * a * p) (gaussian_profile (scenario_simulator 450) 450))],
           res_peak_indices = [[50]],
           res_peak_labels = [[class_index ''Si_1'']],
           res_temperatures = [10000],
           res_intensity_data = [[\<lparr> lr_wavelength = 450, lr_intensity = scenario_I * a,
                                    lr_element_label = ''Si_1'', lr_index = 50 \<rparr>]],
           res_contributions = [add_window (replicate 100 0) 0 100
                            (map (\<lambda>p. scenario_I * a * p) (gaussian_profile (scenario_simulator 450) 450))] \<rparr>"
    using scenario_simulate [OF search_450, of a] by simp
  show ?thesis
    by (simp add: scenario_label index_of_def sim scenario_mixture_def scenario_config_def add_window_def
        broadcast_to_def)
qed

lemma scenario_mixed_pos:
  assumes "0 < a"
  shows "0 < map2 (+) (replicate 100 0)
            (add_window (replicate 100 0) 0 100
               (map (\<lambda>p. scenario_I * a * p) (gaussian_profile (scenario_simulator 450) 450))) ! 49"
proof -
  have "0 < scenario_I * a * (exp (- (1 / 2) * ((400 + real (49::nat) * (100 / 99) - 450) / (1 / 10)) ^ 2)
                        / ((1 / 10) * sqrt (2 * pi)))"
    using scenario_I_pos assms by (intro mult_pos_pos divide_pos_pos) simp_all
  then show ?thesis
    using profile_nth [of 49 450]
    by (simp add: add_window_def gaussian_profile_def scenario_grid)
qed

lemma scenario_sample: "generate_sample scenario_mixture scenario_energies scenario_draws = Inl TypeError"
proof -
  from saha_ratio_pos [of 10000 "10 ^ 16" 8] obtain S where
    S: "saha_ratio 8 10000 (10 ^ 16) = Inr S" "0 < S" by auto
  define a where "a = 10 * (1 / (1 + S)) / 100 * (100 / 10)"
  define b where "b = 10 * (S / (1 + S)) / 100 * (100 / 10)"
  define x where "x = selected_delta_E_max scenario_mixture (chosen scenario_draws)"
  define d where "d = [(''Si_1'', a), (''Si_2'', b), (''temperature'', 10000),
                       (''electron_density'', 10 ^ 16), (''delta_E_max'', x)]"
  have apos: "0 < a" using S(2) by (simp add: a_def)
  have dict: "atom_percentages_dict scenario_mixture scenario_energies scenario_draws = Inr (Some d)"
    using scenario_dict [OF S(1)] by (simp add: d_def a_def b_def x_def)
  define s where "s = add_window (replicate 100 0) 0 100
               (map (\<lambda>p. scenario_I * a * p) (gaussian_profile (scenario_simulator 450) 450))"
  define mixed where "mixed = map2 (+) (replicate 100 0) s"
  have tgt: "filter (\<lambda>key. key \<notin> set reserved_keys) (map fst d) = [''Si_1'', ''Si_2'']"
    by (simp add: d_def reserved_keys_def)
  have aps: "map (\<lambda>elem. dict_get d elem 0) [''Si_1'', ''Si_2''] = [a, b]"
    by (simp add: d_def dict_get_def)
  have sims: "filter (\<lambda>sim. element_label sim \<in> set [''Si_1'', ''Si_2'']) (simulators scenario_mixture)
                = [scenario_simulator 450]"
    by (simp add: scenario_mixture_def scenario_config_def scenario_label)
  have res: "resolution (mix_config scenario_mixture) = 100" by (simp add: scenario_mixture_def scenario_config_def)
  have mix: "mix_loop scenario_mixture [''Si_1'', ''Si_2''] [a, b] [scenario_simulator 450]
               (replicate 100 0, []) = Inr (mixed, [s])"
    unfolding mixed_def s_def by (rule scenario_mix)
  have len: "length mixed = 100" by (simp add: mixed_def s_def add_window_def)
  then have ne: "mixed \<noteq> []" by auto
  have "0 < mixed ! 49" unfolding mixed_def s_def by (rule scenario_mixed_pos [OF apos])
  moreover have "mixed ! 49 \<le> Max (set mixed)" using len by (intro Max_ge) simp_all
  ultimately have mx: "Max (set mixed) \<noteq> 0" by linarith
  have conv: "convolve_spectrum scenario_mixture mixed
       (convolution_sigma (mix_config scenario_mixture)) = Inl TypeError"
    using ne by (intro convolve_spectrum_type_error)
      (simp_all add: scenario_mixture_def scenario_config_def SIMULATION_CONFIG_def)
  have "sample_of_dict scenario_mixture d = Inl TypeError"
    unfolding sample_of_dict_def Let_def tgt aps sims res
    using mix ne mx conv by simp
  then show ?thesis using dict by (simp add: generate_sample_def)
qed

section \<open>The sample scheduler\<close>

lemma length_choice_no_replace:
  "k \<le> length xs \<Longrightarrow> length (fst (choice_no_replace xs k g)) = k"
proof (induction k arbitrary: xs g)
  case 0
  then show ?case by simp
next
  case (Suc k)
  then have ne: "xs \<noteq> []" by auto
  let ?i = "g 0 mod length xs"
  have i: "?i < length xs" using ne by simp
  have "k \<le> length (take ?i xs @ drop (Suc ?i) xs)" using Suc.prems i by simp
  from Suc.IH [OF this, of "rng_tail g"] show ?case
    using ne by (auto simp: Let_def split: prod.splits)
qed

lemma length_choice_replace: "length (fst (choice_replace xs k g)) = k"
proof (induction k arbitrary: g)
  case 0
  then show ?case by simp
next
  case (Suc k)
  from Suc.IH [of "rng_tail g"] show ?case by (auto simp: Let_def split: prod.splits)
qed

lemma temp_params_ok:
  assumes "electron_density_range cfg \<noteq> []"
  shows "\<exists>ps g'. temp_params cfg dE T n g = Inr (ps, g') \<and> map fst ps = replicate n T"
proof -
  define valid where "valid = filter (\<lambda>n_e. calculate_lte_electron_density T (delta_E_max_value dE) \<le> n_e)
                                (electron_density_range cfg)"
  define valid_n_e where "valid_n_e = (if valid = [] then electron_density_range cfg else valid)"
  define max_ne where "max_ne = min (length valid_n_e) 5"
  define k where "k = (if max_ne = 0 then length (electron_density_range cfg) else max_ne)"
  have vne: "valid_n_e \<noteq> []" using assms by (simp add: valid_n_e_def)
  then have mpos: "0 < max_ne" by (simp add: max_ne_def)
  then have kk: "k = max_ne" by (simp add: k_def)
  have k: "0 < k" "k \<le> length valid_n_e" using mpos kk by (simp_all add: max_ne_def)
  obtain sel g1 where sel: "choice_no_replace valid_n_e k g = (sel, g1)" by (cases "choice_no_replace valid_n_e k g")
  have lsel: "length sel = k" using length_choice_no_replace [OF k(2), of g] sel by simp
  then have selne: "sel \<noteq> []" using k(1) by auto
  obtain add g2 where add: "choice_replace sel (n - length sel) g1 = (add, g2)"
    by (cases "choice_replace sel (n - length sel) g1")
  have ladd: "length add = n - length sel" using length_choice_replace [of sel "n - length sel" g1] add by simp
  have eq0: "temp_params cfg dE T n g =
     (case choice_no_replace valid_n_e k g of
        (selected_n_e, g1) \<Rightarrow>
          if length selected_n_e < n then
            if selected_n_e = [] then Inl ValueError
            else (case choice_replace selected_n_e (n - length selected_n_e) g1 of
                    (additional_n_e, g2) \<Rightarrow>
                      Inr (map (Pair T) (take n (selected_n_e @ additional_n_e)), g2))
          else Inr (map (Pair T) (take n selected_n_e), g1))"
    unfolding temp_params_def valid_n_e_def valid_def max_ne_def k_def Let_def by (rule refl)
  have eq: "temp_params cfg dE T n g =
     (if length sel < n then Inr (map (Pair T) (take n (sel @ add)), g2)
      else Inr (map (Pair T) (take n sel), g1))"
    unfolding eq0 sel using add selne by simp
  have fst_pair: "map fst (map (Pair T) zs) = replicate (length zs) T" for zs :: "real list"
    by (induction zs) auto
  show ?thesis
  proof (cases "length sel < n")
    case True
    then have "length (take n (sel @ add)) = n" using ladd by simp
    then show ?thesis using eq True fst_pair [of "take n (sel @ add)"] by simp
  next
    case False
    then have "length (take n sel) = n" by simp
    then show ?thesis using eq False fst_pair [of "take n sel"] by simp
  qed
qed

lemma temps_loop_ok:
  assumes "electron_density_range cfg \<noteq> []" "distinct ts"
  shows "\<exists>P' g'. temps_loop cfg dE spt rem i ts P g = Inr (P', g')
           \<and> (\<forall>T. T \<notin> set ts \<longrightarrow> P' T = P T)
           \<and> (\<forall>j < length ts. \<exists>ps. P' (ts ! j) = P (ts ! j) @ ps
                  \<and> map fst ps = replicate (spt + (if i + j < rem then 1 else 0)) (ts ! j))"
  using assms(2)
proof (induction ts arbitrary: i P g)
  case Nil
  then show ?case by simp
next
  case (Cons T rest)
  from temp_params_ok [OF assms(1), of dE T "spt + (if i < rem then 1 else 0)" g]
  obtain ps g1 where tp: "temp_params cfg dE T (spt + (if i < rem then 1 else 0)) g = Inr (ps, g1)"
    and ps: "map fst ps = replicate (spt + (if i < rem then 1 else 0)) T" by blast
  have d: "distinct rest" and T: "T \<notin> set rest" using Cons.prems by auto
  from Cons.IH [OF d, of "Suc i" "P(T := P T @ ps)" g1]
  obtain P' g' where
    run: "temps_loop cfg dE spt rem (Suc i) rest (P(T := P T @ ps)) g1 = Inr (P', g')"
    and same: "\<forall>U. U \<notin> set rest \<longrightarrow> P' U = (P(T := P T @ ps)) U"
    and ext: "\<forall>j < length rest. \<exists>qs. P' (rest ! j) = (P(T := P T @ ps)) (rest ! j) @ qs
                  \<and> map fst qs = replicate (spt + (if Suc i + j < rem then 1 else 0)) (rest ! j)"
    by blast
  have eq: "temps_loop cfg dE spt rem i (T # rest) P g = Inr (P', g')" using tp run by simp
  have a: "\<forall>U. U \<notin> set (T # rest) \<longrightarrow> P' U = P U" using same by auto
  have b: "\<exists>qs. P' ((T # rest) ! j) = P ((T # rest) ! j) @ qs
                  \<and> map fst qs = replicate (spt + (if i + j < rem then 1 else 0)) ((T # rest) ! j)"
    if j: "j < length (T # rest)" for j
  proof (cases j)
    case 0
    then show ?thesis using same T ps by auto
  next
    case (Suc j')
    then have j': "j' < length rest" using j by simp
    then have "rest ! j' \<noteq> T" using T by (metis nth_mem)
    then show ?thesis using ext j' Suc by auto
  qed
  show ?case using eq a b by blast
qed


lemma sum_upd_Suc:
  assumes "finite S" "T \<in> S"
  shows "sum (f(T := Suc (f T))) S = Suc (sum f S)"
proof -
  have "sum (f(T := Suc (f T))) S = (f(T := Suc (f T))) T + sum (f(T := Suc (f T))) (S - {T})"
    using assms by (rule sum.remove)
  also have "sum (f(T := Suc (f T))) (S - {T}) = sum f (S - {T})" by (rule sum.cong) auto
  also have "(f(T := Suc (f T))) T + sum f (S - {T}) = Suc (f T + sum f (S - {T}))" by simp
  also have "f T + sum f (S - {T}) = sum f S" using assms by (rule sum.remove [symmetric])
  finally show ?thesis .
qed

lemma sum_upd_pred:
  assumes "finite S" "T \<in> S" "0 < f T"
  shows "Suc (sum (f(T := f T - 1)) S) = sum f (S :: real set)"
proof -
  let ?g = "f(T := f T - 1)"
  have "f = ?g(T := Suc (?g T))" using assms(3) by auto
  then have "sum f S = sum (?g(T := Suc (?g T))) S" by simp
  also have "\<dots> = Suc (sum ?g S)" using assms(1,2) by (rule sum_upd_Suc)
  finally show ?thesis by simp
qed

lemma rr_visit_ok:
  assumes "rr_inv temps P st" "params_wf temps P" "T \<in> set temps"
  shows "\<exists>st'. rr_visit P st T = Inr st' \<and> rr_inv temps P st'
           \<and> total_remaining st' = total_remaining st - (if 0 < remaining st T then 1 else 0)
           \<and> (\<forall>U. remaining st' U \<le> remaining st U)"
proof (cases "0 < remaining st T")
  case False
  then show ?thesis using assms(1) by (simp add: rr_visit_def)
next
  case True
  let ?idx = "indices st T"
  have bal: "?idx + remaining st T = length (P T)" using assms(1,3) by (simp add: rr_inv_def)
  then have idx: "?idx < length (P T)" using True by simp
  let ?st' = "st\<lparr> sample_params := sample_params st @ [P T ! ?idx],
                   indices := (indices st)(T := ?idx + 1),
                   remaining := (remaining st)(T := remaining st T - 1),
                   total_remaining := total_remaining st - 1 \<rparr>"
  have eq: "rr_visit P st T = Inr ?st'" using True idx by (simp add: rr_visit_def Let_def)
  have fstp: "fst (P T ! ?idx) = T" using assms(2,3) idx by (auto simp: params_wf_def)
  have i1: "\<forall>U \<in> set temps. indices ?st' U + remaining ?st' U = length (P U)"
    using assms(1) True bal by (auto simp: rr_inv_def)
  have "Suc (sum ((remaining st)(T := remaining st T - 1)) (set temps)) = sum (remaining st) (set temps)"
    using assms(3) True by (intro sum_upd_pred) auto
  then have "int (sum ((remaining st)(T := remaining st T - 1)) (set temps))
                = int (sum (remaining st) (set temps)) - 1" by linarith
  moreover have "total_remaining st = int (sum (remaining st) (set temps))"
    using assms(1) by (simp add: rr_inv_def del: of_nat_sum)
  ultimately have i2: "total_remaining ?st' = int (sum (remaining ?st') (set temps))"
    by (simp del: of_nat_sum)
  have i3: "\<forall>U \<in> set temps. count_list (map fst (sample_params ?st')) U = indices ?st' U"
    using assms(1) fstp by (auto simp: rr_inv_def)
  have "sum ((indices st)(T := Suc (indices st T))) (set temps) = Suc (sum (indices st) (set temps))"
    using assms(3) by (intro sum_upd_Suc) auto
  then have i4: "length (sample_params ?st') = sum (indices ?st') (set temps)"
    using assms(1) by (simp add: rr_inv_def)
  have "P T ! ?idx \<in> set (P T)" using idx by simp
  then have i5: "set (sample_params ?st') \<subseteq> (\<Union>U \<in> set temps. set (P U))"
    using assms(1,3) by (auto simp: rr_inv_def)
  have inv: "rr_inv temps P ?st'" unfolding rr_inv_def using i1 i2 i3 i4 i5 by blast
  have "total_remaining ?st' = total_remaining st - (if 0 < remaining st T then 1 else 0)"
    using True by simp
  moreover have "\<forall>U. remaining ?st' U \<le> remaining st U" by simp
  ultimately show ?thesis using eq inv by blast
qed

lemma rr_round_ok:
  assumes "rr_inv temps P st" "params_wf temps P" "set ts \<subseteq> set temps"
  shows "\<exists>st'. rr_round P st ts = Inr st' \<and> rr_inv temps P st'
           \<and> total_remaining st' \<le> total_remaining st
           \<and> ((\<exists>T \<in> set ts. 0 < remaining st T) \<longrightarrow> total_remaining st' < total_remaining st)
           \<and> (\<forall>U. remaining st' U \<le> remaining st U)"
  using assms(1,3)
proof (induction ts arbitrary: st)
  case Nil
  then show ?case by simp
next
  case (Cons T rest)
  have T: "T \<in> set temps" and rest: "set rest \<subseteq> set temps" using Cons.prems(2) by auto
  from rr_visit_ok [OF Cons.prems(1) assms(2) T] obtain st1 where
    v: "rr_visit P st T = Inr st1" "rr_inv temps P st1"
      "total_remaining st1 = total_remaining st - (if 0 < remaining st T then 1 else 0)"
      "\<forall>U. remaining st1 U \<le> remaining st U"
    by blast
  from Cons.IH [OF v(2) rest] obtain st' where
    r: "rr_round P st1 rest = Inr st'" "rr_inv temps P st'"
      "total_remaining st' \<le> total_remaining st1"
      "(\<exists>U \<in> set rest. 0 < remaining st1 U) \<longrightarrow> total_remaining st' < total_remaining st1"
      "\<forall>U. remaining st' U \<le> remaining st1 U"
    by blast
  have eq: "rr_round P st (T # rest) = Inr st'" using v(1) r(1) by simp
  have le: "total_remaining st' \<le> total_remaining st" using v(3) r(3) by (simp split: if_splits)
  have lt: "total_remaining st' < total_remaining st" if "\<exists>U \<in> set (T # rest). 0 < remaining st U"
  proof (cases "0 < remaining st T")
    case True
    then show ?thesis using v(3) r(3) by simp
  next
    case False
    then have same: "st1 = st" using v(1) by (simp add: rr_visit_def)
    from that False obtain U where "U \<in> set rest" "0 < remaining st U" by auto
    then show ?thesis using r(4) same by auto
  qed
  have mono: "\<forall>U. remaining st' U \<le> remaining st U" using v(4) r(5) by (meson le_trans)
  show ?case using eq r(2) le lt mono by blast
qed

lemma rr_while_ok:
  assumes "rr_inv temps P st" "params_wf temps P"
  shows "\<exists>st'. rr_while temps P st = Some (Inr st') \<and> rr_inv temps P st' \<and> total_remaining st' \<le> 0"
  using assms(1)
proof (induction "nat (total_remaining st)" arbitrary: st rule: less_induct)
  case less
  show ?case
  proof (cases "0 < total_remaining st")
    case False
    then show ?thesis using less.prems by (subst rr_while.simps) simp
  next
    case True
    have "total_remaining st = int (sum (remaining st) (set temps))"
      using less.prems by (simp add: rr_inv_def del: of_nat_sum)
    then have "0 < sum (remaining st) (set temps)" using True by linarith
    then have ex: "\<exists>T \<in> set temps. 0 < remaining st T"
      by (metis not_gr_zero sum.neutral)
    from rr_round_ok [OF less.prems assms(2) subset_refl] ex obtain st1 where
      r: "rr_round P st temps = Inr st1" "rr_inv temps P st1"
        "total_remaining st1 < total_remaining st"
      by blast
    have "nat (total_remaining st1) < nat (total_remaining st)" using r(3) True by simp
    from less.hyps [OF this r(2)] obtain st' where
      "rr_while temps P st1 = Some (Inr st')" "rr_inv temps P st'" "total_remaining st' \<le> 0"
      by blast
    then show ?thesis using True r(1) by (subst rr_while.simps) simp
  qed
qed


lemma quota_sum:
  "sum_list (map (\<lambda>j. c + (if j < r then 1 else 0)) [0..<m]) = m * c + min r (m::nat)"
  by (induction m) (auto simp: min_def)

lemma quota_near:
  assumes "0 < (m::nat)"
  shows "\<bar>real (N div m + (if i < N mod m then 1 else 0)) - real N / real m\<bar> \<le> 1"
proof -
  have "N = m * (N div m) + N mod m" by simp
  then have "real N = real m * real (N div m) + real (N mod m)"
    by (metis of_nat_add of_nat_mult)
  then have q: "real N / real m = real (N div m) + real (N mod m) / real m"
    using assms by (simp add: field_simps)
  have "N mod m < m" using assms by simp
  then have f: "0 \<le> real (N mod m) / real m" "real (N mod m) / real m < 1"
    using assms by simp_all
  define fr where "fr = real (N mod m) / real m"
  have "\<bar>real (N div m + (if i < N mod m then 1 else 0)) - (real (N div m) + fr)\<bar> \<le> 1"
    using f unfolding fr_def [symmetric] by (cases "i < N mod m") (simp_all add: abs_le_iff)
  then show ?thesis unfolding q fr_def .
qed

lemma scheduler_returns:
  assumes "temperature_range cfg \<noteq> []" "distinct (temperature_range cfg)"
    and "electron_density_range cfg \<noteq> []"
  shows "\<exists>ps. generate_sample_params cfg delta_E_max_dict g = Some (Inr ps)
           \<and> length ps = num_samples cfg
           \<and> (\<forall>i < length (temperature_range cfg).
                 count_list (map fst ps) (temperature_range cfg ! i)
                   = num_samples cfg div length (temperature_range cfg)
                     + (if i < num_samples cfg mod length (temperature_range cfg) then 1 else 0)
               \<and> \<bar>real (count_list (map fst ps) (temperature_range cfg ! i))
                    - real (num_samples cfg) / real (length (temperature_range cfg))\<bar> \<le> 1)"
proof -
  define temps where "temps = temperature_range cfg"
  define m where "m = length temps"
  define N where "N = num_samples cfg"
  define n where "n = (\<lambda>j. N div m + (if j < N mod m then 1 else 0))"
  have mpos: "0 < m" using assms(1) by (simp add: m_def temps_def)
  have dist: "distinct temps" using assms(2) by (simp add: temps_def)
  from temps_loop_ok [OF assms(3) dist, of delta_E_max_dict "N div m" "N mod m" 0 "\<lambda>T. []" g]
  obtain P g1 where
    tl: "temps_loop cfg delta_E_max_dict (N div m) (N mod m) 0 temps (\<lambda>T. []) g = Inr (P, g1)"
    and ext: "\<forall>j < length temps. \<exists>ps. P (temps ! j) = [] @ ps
                  \<and> map fst ps = replicate (N div m + (if 0 + j < N mod m then 1 else 0)) (temps ! j)"
    by blast
  have Pj: "map fst (P (temps ! j)) = replicate (n j) (temps ! j)" if "j < m" for j
    using ext that by (auto simp: m_def n_def)
  have lenP: "length (P (temps ! j)) = n j" if "j < m" for j
    using Pj [OF that] by (metis length_map length_replicate)
  have wf: "params_wf temps P"
    unfolding params_wf_def
  proof (intro ballI)
    fix T p assume "T \<in> set temps" "p \<in> set (P T)"
    then obtain j where j: "j < m" "temps ! j = T" by (auto simp: in_set_conv_nth m_def)
    from Pj [OF j(1)] j(2) have e: "map fst (P T) = replicate (n j) T" by simp
    have "fst p \<in> set (map fst (P T))" using \<open>p \<in> set (P T)\<close> by simp
    then have "fst p \<in> set (replicate (n j) T)" unfolding e .
    then show "fst p = T" by simp
  qed
  let ?st0 = "\<lparr> sample_params = [], indices = (\<lambda>T. 0), remaining = (\<lambda>T. length (P T)),
              total_remaining = int (sum_list (map (\<lambda>T. length (P T)) (remdups temps))) \<rparr>"
  have tot0: "sum_list (map (\<lambda>T. length (P T)) (remdups temps)) = sum (\<lambda>T. length (P T)) (set temps)"
    using sum_list_distinct_conv_sum_set [of "remdups temps" "\<lambda>T. length (P T)"] by simp
  have inv0: "rr_inv temps P ?st0" unfolding rr_inv_def using tot0 by (simp del: of_nat_sum)
  from rr_while_ok [OF inv0 wf] obtain st where
    w: "rr_while temps P ?st0 = Some (Inr st)" and inv: "rr_inv temps P st"
    and fin: "total_remaining st \<le> 0"
    by blast
  have "int (sum (remaining st) (set temps)) \<le> 0"
    using inv fin by (simp add: rr_inv_def del: of_nat_sum)
  then have "sum (remaining st) (set temps) = 0" by linarith
  then have rem0: "\<forall>T \<in> set temps. remaining st T = 0" by simp
  have ind: "indices st T = length (P T)" if "T \<in> set temps" for T
    using inv rem0 that by (auto simp: rr_inv_def)
  have cnt: "count_list (map fst (sample_params st)) (temps ! j) = n j" if "j < m" for j
  proof -
    have "temps ! j \<in> set temps" using that by (simp add: m_def)
    then show ?thesis using inv ind lenP [OF that] by (auto simp: rr_inv_def)
  qed
  have "length (sample_params st) = sum (indices st) (set temps)" using inv by (simp add: rr_inv_def)
  also have "\<dots> = sum (\<lambda>T. length (P T)) (set temps)" using ind by (intro sum.cong) auto
  also have "\<dots> = sum_list (map (\<lambda>T. length (P T)) temps)"
    using sum_list_distinct_conv_sum_set [OF dist, of "\<lambda>T. length (P T)"] by simp
  also have "map (\<lambda>T. length (P T)) temps = map n [0..<m]"
    by (rule nth_equalityI) (simp_all add: m_def lenP)
  also have "sum_list (map n [0..<m]) = m * (N div m) + min (N mod m) m"
    unfolding n_def by (rule quota_sum)
  also have "\<dots> = N" using mpos by simp
  finally have len: "length (sample_params st) = N" .
  have res: "generate_sample_params cfg delta_E_max_dict g = Some (Inr (sample_params st))"
    unfolding generate_sample_params_def Let_def
    using mpos tl w len
    by (simp add: temps_def [symmetric] m_def [symmetric] N_def [symmetric])
  have q: "\<bar>real (count_list (map fst (sample_params st)) (temps ! j)) - real N / real m\<bar> \<le> 1"
    if "j < m" for j
    unfolding cnt [OF that] n_def by (rule quota_near [OF mpos])
  show ?thesis
    unfolding temps_def [symmetric] m_def [symmetric] N_def [symmetric]
    using res len cnt q by (auto simp: n_def)
qed

text \<open>
  C8. For a non-empty list of distinct temperatures and a non-empty list of density
  candidates, whatever the random stream, the scheduler returns (it terminates and does not
  raise) exactly \<open>num_samples\<close> pairs, and the \<open>i\<close>-th temperature occurs in
  \<open>N div m\<close> of them, plus one when \<open>i < N mod m\<close>: a quota within 1 of \<open>N / m\<close>.
\<close>

theorem C8_scheduler_quota:
  assumes "temperature_range cfg \<noteq> []" "distinct (temperature_range cfg)"
    and "electron_density_range cfg \<noteq> []"
  shows "\<exists>ps. generate_sample_params cfg delta_E_max_dict g = Some (Inr ps)
           \<and> length ps = num_samples cfg
           \<and> (\<forall>i < length (temperature_range cfg).
                 count_list (map fst ps) (temperature_range cfg ! i)
                   = num_samples cfg div length (temperature_range cfg)
                     + (if i < num_samples cfg mod length (temperature_range cfg) then 1 else 0)
               \<and> \<bar>real (count_list (map fst ps) (temperature_range cfg ! i))
                    - real (num_samples cfg) / real (length (temperature_range cfg))\<bar> \<le> 1)"
  using assms by (rule scheduler_returns)

theorem C8_scheduler_quota_witness:
  "temperature_range SIMULATION_CONFIG \<noteq> [] \<and> distinct (temperature_range SIMULATION_CONFIG)
   \<and> electron_density_range SIMULATION_CONFIG \<noteq> []
   \<and> (\<exists>ps. generate_sample_params SIMULATION_CONFIG [] (\<lambda>i. 0) = Some (Inr ps)
          \<and> length ps = 500
          \<and> count_list (map fst ps) 6000 = 84 \<and> count_list (map fst ps) 8000 = 84
          \<and> count_list (map fst ps) 10000 = 83 \<and> count_list (map fst ps) 12000 = 83
          \<and> count_list (map fst ps) 14000 = 83 \<and> count_list (map fst ps) 15000 = 83)"
proof -
  have h1: "temperature_range SIMULATION_CONFIG \<noteq> []"
    and h2: "distinct (temperature_range SIMULATION_CONFIG)"
    and h3: "electron_density_range SIMULATION_CONFIG \<noteq> []"
    by (simp_all add: SIMULATION_CONFIG_def linspace_def)
  from C8_scheduler_quota [OF h1 h2 h3, of "[]" "\<lambda>i. 0"] obtain ps where
    ps: "generate_sample_params SIMULATION_CONFIG [] (\<lambda>i. 0) = Some (Inr ps)"
      "length ps = num_samples SIMULATION_CONFIG"
    and q: "\<And>i. i < length (temperature_range SIMULATION_CONFIG) \<Longrightarrow>
                 count_list (map fst ps) (temperature_range SIMULATION_CONFIG ! i)
                   = num_samples SIMULATION_CONFIG div length (temperature_range SIMULATION_CONFIG)
                     + (if i < num_samples SIMULATION_CONFIG mod length (temperature_range SIMULATION_CONFIG)
                        then 1 else 0)"
    by blast
  have "count_list (map fst ps) 6000 = 84" "count_list (map fst ps) 8000 = 84"
    "count_list (map fst ps) 10000 = 83" "count_list (map fst ps) 12000 = 83"
    "count_list (map fst ps) 14000 = 83" "count_list (map fst ps) 15000 = 83"
    using q [of 0] q [of 1] q [of 2] q [of 3] q [of 4] q [of 5]
    by (simp_all add: SIMULATION_CONFIG_def)
  moreover have "length ps = 500" using ps(2) by (simp add: SIMULATION_CONFIG_def)
  ultimately show ?thesis using h1 h2 h3 ps(1) by blast
qed

section \<open>The driver: deduplication\<close>













section \<open>The driver: persistence\<close>

lemma temp_params_fst:
  assumes "temp_params cfg dE T n g = Inr (ps, g')"
  shows "\<forall>p \<in> set ps. fst p = T"
  using assms
  by (auto simp: temp_params_def Let_def split: prod.splits if_splits)

lemma temps_loop_wf:
  assumes "temps_loop cfg dE spt rem i ts P g = Inr (P', g')" "\<forall>T. \<forall>p \<in> set (P T). fst p = T"
  shows "\<forall>T. \<forall>p \<in> set (P' T). fst p = T"
  using assms
proof (induction ts arbitrary: i P g)
  case Nil
  then show ?case by simp
next
  case (Cons T rest)
  from Cons.prems(1) obtain ps g1 where
    tp: "temp_params cfg dE T (spt + (if i < rem then 1 else 0)) g = Inr (ps, g1)"
    and run: "temps_loop cfg dE spt rem (Suc i) rest (P(T := P T @ ps)) g1 = Inr (P', g')"
    by (auto split: sum.splits)
  have "\<forall>U. \<forall>p \<in> set ((P(T := P T @ ps)) U). fst p = U"
    using Cons.prems(2) temp_params_fst [OF tp] by auto
  from Cons.IH [OF run this] show ?case .
qed


lemma dataset_save_combination [simp]: "dataset_file (save_combination f c) = dataset_file f"
  by (simp add: save_combination_def split: option.splits json_doc.splits)

lemma mix_wavelengths_conditions [simp]:
  "mix_wavelengths (ms\<lparr> current_T := T, current_n_e := n_e \<rparr>) = mix_wavelengths ms"
  by (simp add: mix_wavelengths_def)








section \<open>A run on the scenario\<close>

lemma choice_no_replace_subset: "set (fst (choice_no_replace xs k g)) \<subseteq> set xs"
proof (induction k arbitrary: xs g)
  case 0
  then show ?case by simp
next
  case (Suc k)
  show ?case
  proof (cases "xs = []")
    case True
    then show ?thesis by simp
  next
    case False
    let ?i = "g 0 mod length xs"
    have i: "?i < length xs" using False by simp
    have "set (take ?i xs @ drop (Suc ?i) xs) \<subseteq> set xs"
      by (auto dest: in_set_takeD in_set_dropD)
    with Suc.IH [of "take ?i xs @ drop (Suc ?i) xs" "rng_tail g"]
    have "set (fst (choice_no_replace (take ?i xs @ drop (Suc ?i) xs) k (rng_tail g))) \<subseteq> set xs"
      by blast
    then show ?thesis using False i by (auto simp: Let_def split: prod.splits)
  qed
qed

lemma choice_replace_subset: "xs \<noteq> [] \<Longrightarrow> set (fst (choice_replace xs k g)) \<subseteq> set xs"
proof (induction k arbitrary: g)
  case 0
  then show ?case by simp
next
  case (Suc k)
  have "g 0 mod length xs < length xs" using Suc.prems by simp
  then have "xs ! (g 0 mod length xs) \<in> set xs" by simp
  then show ?case using Suc.IH [OF Suc.prems, of "rng_tail g"] by (auto simp: Let_def split: prod.splits)
qed

lemma temp_params_snd:
  assumes "temp_params cfg dE T n g = Inr (ps, g')"
  shows "snd ` set ps \<subseteq> set (electron_density_range cfg)"
proof -
  define valid where "valid = filter (\<lambda>n_e. calculate_lte_electron_density T (delta_E_max_value dE) \<le> n_e)
                                (electron_density_range cfg)"
  define valid_n_e where "valid_n_e = (if valid = [] then electron_density_range cfg else valid)"
  define k where "k = (if min (length valid_n_e) 5 = 0 then length (electron_density_range cfg)
                       else min (length valid_n_e) 5)"
  obtain sel g1 where sel: "choice_no_replace valid_n_e k g = (sel, g1)" by (cases "choice_no_replace valid_n_e k g")
  obtain add g2 where add: "choice_replace sel (n - length sel) g1 = (add, g2)"
    by (cases "choice_replace sel (n - length sel) g1")
  have v: "set valid_n_e \<subseteq> set (electron_density_range cfg)" by (auto simp: valid_n_e_def valid_def)
  have s: "set sel \<subseteq> set valid_n_e" using choice_no_replace_subset [of valid_n_e k g] sel by simp
  have a: "sel \<noteq> [] \<Longrightarrow> set add \<subseteq> set sel"
    using choice_replace_subset [of sel "n - length sel" g1] add by simp
  have eq0: "temp_params cfg dE T n g =
     (case choice_no_replace valid_n_e k g of
        (selected_n_e, g1) \<Rightarrow>
          if length selected_n_e < n then
            if selected_n_e = [] then Inl ValueError
            else (case choice_replace selected_n_e (n - length selected_n_e) g1 of
                    (additional_n_e, g2) \<Rightarrow>
                      Inr (map (Pair T) (take n (selected_n_e @ additional_n_e)), g2))
          else Inr (map (Pair T) (take n selected_n_e), g1))"
    unfolding temp_params_def valid_n_e_def valid_def k_def Let_def by (rule refl)
  have "snd ` set ps \<subseteq> set sel \<union> set add \<and> (ps \<noteq> [] \<longrightarrow> sel \<noteq> [])"
    using assms unfolding eq0 sel
    by (auto simp: add split: if_splits dest!: in_set_takeD)
  then show ?thesis using v s a by (cases "sel = []") auto
qed

lemma temps_loop_dens:
  assumes "temps_loop cfg dE spt rem i ts P g = Inr (P', g')"
    and "\<forall>T. snd ` set (P T) \<subseteq> set (electron_density_range cfg)"
  shows "\<forall>T. snd ` set (P' T) \<subseteq> set (electron_density_range cfg)"
  using assms
proof (induction ts arbitrary: i P g)
  case Nil
  then show ?case by simp
next
  case (Cons T rest)
  from Cons.prems(1) obtain ps g1 where
    tp: "temp_params cfg dE T (spt + (if i < rem then 1 else 0)) g = Inr (ps, g1)"
    and run: "temps_loop cfg dE spt rem (Suc i) rest (P(T := P T @ ps)) g1 = Inr (P', g')"
    by (auto split: sum.splits)
  have "\<forall>U. snd ` set ((P(T := P T @ ps)) U) \<subseteq> set (electron_density_range cfg)"
    using Cons.prems(2) temp_params_snd [OF tp] by auto
  from Cons.IH [OF run this] show ?case .
qed

lemma pad_loop_subset: "sp \<noteq> [] \<Longrightarrow> set (pad_loop n sp g) \<subseteq> set sp"
proof (induction n arbitrary: sp g)
  case 0
  then show ?case by simp
next
  case (Suc n)
  have "g 0 mod length sp < length sp" using Suc.prems by simp
  then have m: "sp ! (g 0 mod length sp) \<in> set sp" by simp
  have "set (pad_loop n (sp @ [sp ! (g 0 mod length sp)]) (rng_tail g))
          \<subseteq> set (sp @ [sp ! (g 0 mod length sp)])"
    by (rule Suc.IH) simp
  then show ?case using m by auto
qed

lemma scheduler_pairs:
  assumes "generate_sample_params cfg dE g = Some (Inr ps)"
  shows "set ps \<subseteq> set (temperature_range cfg) \<times> set (electron_density_range cfg)"
proof -
  let ?temps = "temperature_range cfg"
  let ?m = "length ?temps"
  have m: "?m \<noteq> 0" using assms by (auto simp: generate_sample_params_def)
  from assms m obtain P g1 where
    tl: "temps_loop cfg dE (num_samples cfg div ?m) (num_samples cfg mod ?m) 0 ?temps (\<lambda>T. []) g = Inr (P, g1)"
    by (auto simp: generate_sample_params_def Let_def split: sum.splits)
  have fstP: "\<forall>T. \<forall>p \<in> set (P T). fst p = T"
    using temps_loop_wf [OF tl] by simp
  have sndP: "\<forall>T. snd ` set (P T) \<subseteq> set (electron_density_range cfg)"
    using temps_loop_dens [OF tl] by simp
  have wf: "params_wf ?temps P" using fstP by (simp add: params_wf_def)
  let ?st0 = "\<lparr> sample_params = [], indices = (\<lambda>T. 0), remaining = (\<lambda>T. length (P T)),
              total_remaining = int (sum_list (map (\<lambda>T. length (P T)) (remdups ?temps))) \<rparr>"
  have tot0: "sum_list (map (\<lambda>T. length (P T)) (remdups ?temps)) = sum (\<lambda>T. length (P T)) (set ?temps)"
    using sum_list_distinct_conv_sum_set [of "remdups ?temps" "\<lambda>T. length (P T)"] by simp
  have inv0: "rr_inv ?temps P ?st0" unfolding rr_inv_def using tot0 by (simp del: of_nat_sum)
  from rr_while_ok [OF inv0 wf] obtain st where
    w: "rr_while ?temps P ?st0 = Some (Inr st)" and inv: "rr_inv ?temps P st" by blast
  have "set (sample_params st) \<subseteq> (\<Union>T \<in> set ?temps. set (P T))" using inv by (simp add: rr_inv_def)
  moreover have "(\<Union>T \<in> set ?temps. set (P T)) \<subseteq> set ?temps \<times> set (electron_density_range cfg)"
  proof
    fix p assume "p \<in> (\<Union>T \<in> set ?temps. set (P T))"
    then obtain T where T: "T \<in> set ?temps" "p \<in> set (P T)" by blast
    then have "fst p = T" "snd p \<in> set (electron_density_range cfg)" using fstP sndP by blast+
    then show "p \<in> set ?temps \<times> set (electron_density_range cfg)" using T(1) by (cases p) auto
  qed
  ultimately have sp: "set (sample_params st) \<subseteq> set ?temps \<times> set (electron_density_range cfg)" by blast
  have res: "Some (Inr ps) =
     (let sp = sample_params st in
        if length sp < num_samples cfg then
          (if sp = [] then Some (Inl ValueError)
           else Some (Inr (pad_loop (num_samples cfg - length sp) sp g1)))
        else if num_samples cfg < length sp then Some (Inr (take (num_samples cfg) sp))
        else Some (Inr sp))"
    using assms m tl w unfolding generate_sample_params_def Let_def by simp
  have "set ps \<subseteq> set (sample_params st)"
    using res pad_loop_subset [of "sample_params st" "num_samples cfg - length (sample_params st)" g1]
    by (auto simp: Let_def split: if_splits dest: in_set_takeD)
  then show ?thesis using sp by blast
qed

lemma scenario_schedule:
  "generate_sample_params scenario_config dE g = Some (Inr (replicate 5 (10000, 10 ^ 16)))"
proof -
  have h: "temperature_range scenario_config \<noteq> []" "distinct (temperature_range scenario_config)"
    "electron_density_range scenario_config \<noteq> []"
    by (simp_all add: scenario_config_def)
  from scheduler_returns [OF h, of dE g] obtain ps where
    ps: "generate_sample_params scenario_config dE g = Some (Inr ps)"
    and len: "length ps = num_samples scenario_config" by blast
  have "set ps \<subseteq> set (temperature_range scenario_config) \<times> set (electron_density_range scenario_config)"
    using ps by (rule scheduler_pairs)
  then have "\<forall>p \<in> set ps. p = (10000, 10 ^ 16)" by (auto simp: scenario_config_def)
  then have "ps = replicate (length ps) (10000, 10 ^ 16)"
    by (simp add: replicate_length_same)
  then show ?thesis using ps len by (simp add: scenario_config_def)
qed

text \<open>
  The run on the scenario ends at its first call of \<open>generate_sample\<close>: the
  \<^verbatim>\<open>TypeError\<close> of the convolution is not caught, and the files are as the run found
  them.
\<close>

lemma scenario_run_type_error: "scenario_run lib g gp now f = Some (Some TypeError, f)"
proof -
  let ?ms = "\<lparr> simulators = [scenario_simulator 450], mix_config = scenario_config,
             delta_E_max = [(''Si_1'', 3)], current_T = 0, current_n_e = 0 \<rparr>"
  have ms: "?ms\<lparr> current_T := 10000, current_n_e := 10 ^ 16 \<rparr> = scenario_mixture"
    by (simp add: scenario_mixture_def)
  have gs: "generate_sample (?ms\<lparr> current_T := 10000, current_n_e := 10 ^ 16 \<rparr>) scenario_energies
              scenario_draws = Inl TypeError"
    unfolding ms by (rule scenario_sample)
  have first: "attempt_loop lib ?ms scenario_energies (\<lambda>k. scenario_draws) 10000 (10 ^ 16) 5 (initial_state f)
                 = Inl (TypeError, initial_state f)"
    using gs by (simp add: eval_nat_numeral)
  have r5: "replicate 5 (10000 :: real, 10 ^ 16 :: real) = (10000, 10 ^ 16) # replicate 4 (10000, 10 ^ 16)"
    by (simp add: eval_nat_numeral)
  have "sample_loop lib scenario_config ?ms scenario_energies (\<lambda>k. scenario_draws)
          (replicate 5 (10000, 10 ^ 16)) (initial_state f) = Inl (TypeError, initial_state f)"
    unfolding r5 using first by simp
  then show ?thesis
    unfolding scenario_run_def generate_dataset_def Let_def scenario_schedule
    by (simp add: initial_state_def)
qed

section \<open>The driver: a combination log that cannot be written\<close>



end
